theory Spec2Isabelle
  imports Complex_Main
begin

section \<open>The Radau-IIA integrator of accelerInt (src/src/radau2a.c)\<close>

text \<open>
  Conventions of the embedding.
  \<^item> A C \<^verbatim>\<open>double\<close> is a \<^typ>\<open>real\<close>: arithmetic is exact, there is no rounding, no
    overflow and no NaN inside the computation. The one NaN the source writes on purpose
    (\<^verbatim>\<open>y[0] = logf(-1)\<close>) is the constructor \<open>NaN\<close> of the type \<open>dbl\<close> of the vector that
    \<^verbatim>\<open>integrate\<close> hands back.
  \<^item> A C array of \<^verbatim>\<open>NN\<close> doubles is a list; a loop \<^verbatim>\<open>for (i = 0; i < NN; i++) X[i] = e(i)\<close>
    is \<open>map e [0..<NN]\<close>. Matrices are column major, as in the source.
  \<^item> \<^verbatim>\<open>pow\<close> is \<open>powr\<close>: every base the source passes is positive.
  \<^item> What the source includes but this repository does not hold (header.h, dydt.h, jacob.h,
    LAPACK) is a field of the record \<open>env\<close>: the dimension \<^verbatim>\<open>NN\<close>, the tolerances, the
    right-hand side, the Jacobian and the four LAPACK routines.
  \<^item> \<^verbatim>\<open>printf\<close> is not modelled; \<^verbatim>\<open>exit(c)\<close> is the outcome \<open>Exit c\<close>.
\<close>

subsection \<open>Constants (radau2a.c, lines 22-35; solver.hpp for EPS)\<close>

definition Max_no_steps :: int where "Max_no_steps = 200000"
definition NewtonMaxit :: int where "NewtonMaxit = 8"
definition StartNewton :: bool where "StartNewton = True"
definition EPS :: real where "EPS = 1 / 2 ^ 52"
definition Roundoff :: real where "Roundoff = EPS"
definition FacMin :: real where "FacMin = 0.2"
definition FacMax :: real where "FacMax = 8"
definition FacSafe :: real where "FacSafe = 0.9"
definition FacRej :: real where "FacRej = 0.1"
definition ThetaMin :: real where "ThetaMin = 0.001"
definition NewtonTol :: real where "NewtonTol = 0.03"
definition Qmin :: real where "Qmin = 1.0"
definition Qmax :: real where "Qmax = 1.2"
definition UNROLL :: nat where "UNROLL = 8"

subsection \<open>The environment: compile-time configuration, problem hooks, LAPACK\<close>

text \<open>
  \<open>dgetrf env n A\<close> is \<^verbatim>\<open>dgetrf_(&n, &n, A, &n, ipiv, &info)\<close> and returns the overwritten
  \<open>A\<close>, the pivots and \<open>info\<close>; \<open>dgetrs env n A ipiv B\<close> is
  \<^verbatim>\<open>dgetrs_(&TRANS, &n, &NRHS, A, &n, ipiv, B, &n, &info)\<close> and returns the overwritten
  \<open>B\<close> and \<open>info\<close>; \<open>zgetrf\<close> and \<open>zgetrs\<close> are the complex pair.

  \<open>sums_oob env scl DY\<close> is the double that lies directly behind the local array
  \<^verbatim>\<open>sums[UNROLL]\<close> in the frame of the call \<^verbatim>\<open>RK_ErrorNorm(scl, DY)\<close>: the last loop of that
  function reads it (see \<open>add_sums\<close>), and the source does not determine its value.
\<close>

record env =
  NN :: nat
  ATOL :: real
  RTOL :: real
  dydt :: "real \<Rightarrow> real \<Rightarrow> real list \<Rightarrow> real list"
  eval_jacob :: "real \<Rightarrow> real \<Rightarrow> real list \<Rightarrow> real list"
  dgetrf :: "nat \<Rightarrow> real list \<Rightarrow> real list \<times> int list \<times> int"
  zgetrf :: "nat \<Rightarrow> complex list \<Rightarrow> complex list \<times> int list \<times> int"
  dgetrs :: "nat \<Rightarrow> real list \<Rightarrow> int list \<Rightarrow> real list \<Rightarrow> real list \<times> int"
  zgetrs :: "nat \<Rightarrow> complex list \<Rightarrow> int list \<Rightarrow> complex list \<Rightarrow> complex list \<times> int"
  sums_oob :: "real list \<Rightarrow> real list \<Rightarrow> real"

subsection \<open>Scale vectors (lines 38-50)\<close>

definition scale :: "env \<Rightarrow> real list \<Rightarrow> real list \<Rightarrow> real list" where
  "scale env y0 y =
     map (\<lambda>i. 1.0 / (ATOL env + max \<bar>y0 ! i\<bar> \<bar>y ! i\<bar> * RTOL env)) [0..<NN env]"

definition scale_init :: "env \<Rightarrow> real list \<Rightarrow> real list" where
  "scale_init env y0 =
     map (\<lambda>i. 1.0 / (ATOL env + \<bar>y0 ! i\<bar> * RTOL env)) [0..<NN env]"

subsection \<open>Butcher coefficients (lines 52-182, the branch without SDIRK\_ERROR)\<close>

definition rkA :: "real list list" where
  "rkA = [[ 0.1968154772236604258683861429918299,
           -0.0655354258501983881085227825696087,
            0.02377097434822015242040823210718965],
          [ 0.3944243147390872769974116714584975,
            0.2920734116652284630205027458970589,
           -0.04154875212599793019818600988496743],
          [ 0.3764030627004672750500754423692808,
            0.5124858261884216138388134465196080,
            0.1111111111111111111111111111111111]]"

definition rkB :: "real list" where
  "rkB = [0.3764030627004672750500754423692808,
          0.5124858261884216138388134465196080,
          0.1111111111111111111111111111111111]"

definition rkC :: "real list" where
  "rkC = [0.1550510257216821901802715925294109,
          0.6449489742783178098197284074705891,
          1.0]"

definition rkE :: "real list" where
  "rkE = [0.05,
          -10.04880939982741556246032950764708 * 0.05,
          1.382142733160748895793662840980412 * 0.05,
          -0.3333333333333333333333333333333333 * 0.05]"

definition rkTheta :: "real list" where
  "rkTheta = [-1.520677486405081647234271944611547 - 10.04880939982741556246032950764708 * 0.05,
              2.070455145596436382729929151810376 + 1.382142733160748895793662840980413 * 0.05,
              -0.3333333333333333333333333333333333 * 0.05 - 0.3744441479783868387391430179970741]"

definition rkGamma :: real where "rkGamma = 3.637834252744495732208418513577775"
definition rkAlpha :: real where "rkAlpha = 2.681082873627752133895790743211112"
definition rkBeta :: real where "rkBeta = 3.050430199247410569426377624787569"

definition rkT :: "real list list" where
  "rkT = [[ 0.09443876248897524148749007950641664,
           -0.1412552950209542084279903838077973,
           -0.0300291941051474244918611170890539],
          [ 0.2502131229653333113765090675125018,
            0.2041293522937999319959908102983381,
            0.3829421127572619377954382335998733],
          [ 1.0, 1.0, 0.0]]"

definition rkTinv :: "real list list" where
  "rkTinv = [[ 4.178718591551904727346462658512057,
               0.327682820761062387082533272429617,
               0.5233764454994495480399309159089876],
             [-4.178718591551904727346462658512057,
              -0.327682820761062387082533272429617,
               0.4766235545005504519600690840910124],
             [-0.502872634945786875951247343139544,
               2.571926949855605429186785353601676,
              -0.5960392048282249249688219110993024]]"

definition rkTinvAinv :: "real list list" where
  "rkTinvAinv = [[ 15.20148562492775501049204957366528,
                   1.192055789400527921212348994770778,
                   1.903956760517560343018332287285119],
                 [-9.669512977505946748632625374449567,
                  -8.724028436822336183071773193986487,
                   3.096043239482439656981667712714881],
                 [-14.09513259499574544876303981551774,
                   5.895975725255405108079130152868952,
                  -0.1441236197545344702389881889085515]]"

definition rkAinvT :: "real list list" where
  "rkAinvT = [[ 0.3435525649691961614912493915818282,
               -0.4703191128473198422370558694426832,
                0.3503786597113668965366406634269080],
              [ 0.9102338692094599309122768354288852,
                1.715425895757991796035292755937326,
                0.4040171993145015239277111187301784],
              [ 3.637834252744495732208418513577775,
                2.681082873627752133895790743211112,
               -3.050430199247410569426377624787569]]"

definition rkELO :: real where "rkELO = 4"

subsection \<open>RK\_Decomp (lines 200-220)\<close>

text \<open>
  Entry \<open>k = i + j * NN\<close> of the column-major matrices is \<open>- Jac[k]\<close>, plus \<open>temp1\<close>
  (\<open>temp2\<close>) on the diagonal \<open>i = j\<close>. When \<^verbatim>\<open>dgetrf_\<close> reports \<open>info \<noteq> 0\<close> the function
  returns at once: \<open>E2\<close> is then the unfactored matrix and \<open>ipiv2\<close> keeps its old value.
\<close>

definition RK_Decomp ::
  "env \<Rightarrow> real \<Rightarrow> real list \<Rightarrow> int list
     \<Rightarrow> real list \<times> complex list \<times> int list \<times> int list \<times> int" where
  "RK_Decomp env H Jac ipiv2 =
     (let temp2 = Complex (rkAlpha / H) (rkBeta / H);
          temp1 = rkGamma / H;
          n = NN env;
          E1 = map (\<lambda>k. - Jac ! k + (if k mod n = k div n then temp1 else 0)) [0..<n * n];
          E2 = map (\<lambda>k. complex_of_real (- Jac ! k) + (if k mod n = k div n then temp2 else 0))
                 [0..<n * n];
          (E1', ipiv1', info) = dgetrf env n E1
      in if info \<noteq> 0 then (E1', E2, ipiv1', ipiv2, info)
         else (let (E2', ipiv2', info') = zgetrf env n E2
               in (E1', E2', ipiv1', ipiv2', info')))"

subsection \<open>The interpolant (lines 222-248)\<close>

definition RK_Make_Interpolate :: "env \<Rightarrow> real list \<Rightarrow> real list \<Rightarrow> real list \<Rightarrow> real list" where
  "RK_Make_Interpolate env Z1 Z2 Z3 =
     (let den = (rkC ! 2 - rkC ! 1) * (rkC ! 1 - rkC ! 0) * (rkC ! 0 - rkC ! 2) in
      map (\<lambda>i. ((- (rkC ! 2) * rkC ! 2 * rkC ! 1 * Z1 ! i + Z3 ! i * rkC ! 1 * rkC ! 0 * rkC ! 0
                  + rkC ! 1 * rkC ! 1 * rkC ! 2 * Z1 ! i - rkC ! 1 * rkC ! 1 * rkC ! 0 * Z3 ! i
                  + rkC ! 2 * rkC ! 2 * rkC ! 0 * Z2 ! i - Z2 ! i * rkC ! 2 * rkC ! 0 * rkC ! 0)
                 / den) - Z3 ! i) [0..<NN env]
      @ map (\<lambda>i. - (rkC ! 0 * rkC ! 0 * (Z3 ! i - Z2 ! i) + rkC ! 1 * rkC ! 1 * (Z1 ! i - Z3 ! i)
                   + rkC ! 2 * rkC ! 2 * (Z2 ! i - Z1 ! i)) / den) [0..<NN env]
      @ map (\<lambda>i. (rkC ! 0 * (Z3 ! i - Z2 ! i) + rkC ! 1 * (Z1 ! i - Z3 ! i)
                  + rkC ! 2 * (Z2 ! i - Z1 ! i)) / den) [0..<NN env])"

text \<open>The third line multiplies by \<open>x2\<close> outside and \<open>x3\<close> inside, as the source does.\<close>

definition RK_Interpolate ::
  "env \<Rightarrow> real \<Rightarrow> real \<Rightarrow> real list \<Rightarrow> real list \<times> real list \<times> real list" where
  "RK_Interpolate env H Hold CONT =
     (let r = H / Hold;
          x1 = 1.0 + rkC ! 0 * r;
          x2 = 1.0 + rkC ! 1 * r;
          x3 = 1.0 + rkC ! 2 * r;
          n = NN env
      in (map (\<lambda>i. CONT ! i + x1 * (CONT ! (n + i) + x1 * CONT ! (n + n + i))) [0..<n],
          map (\<lambda>i. CONT ! i + x2 * (CONT ! (n + i) + x2 * CONT ! (n + n + i))) [0..<n],
          map (\<lambda>i. CONT ! i + x2 * (CONT ! (n + i) + x3 * CONT ! (n + n + i))) [0..<n]))"

subsection \<open>Vector helpers (lines 251-266)\<close>

definition WADD :: "env \<Rightarrow> real list \<Rightarrow> real list \<Rightarrow> real list" where
  "WADD env X Y = map (\<lambda>i. X ! i + Y ! i) [0..<NN env]"

definition DAXPY3 ::
  "env \<Rightarrow> real \<Rightarrow> real \<Rightarrow> real \<Rightarrow> real list \<Rightarrow> real list \<Rightarrow> real list \<Rightarrow> real list
     \<Rightarrow> real list \<times> real list \<times> real list" where
  "DAXPY3 env DA1 DA2 DA3 DX DY1 DY2 DY3 =
     (map (\<lambda>i. DY1 ! i + DA1 * DX ! i) [0..<NN env],
      map (\<lambda>i. DY2 ! i + DA2 * DX ! i) [0..<NN env],
      map (\<lambda>i. DY3 ! i + DA3 * DX ! i) [0..<NN env])"

subsection \<open>RK\_PrepareRHS (lines 272-299)\<close>

definition RK_PrepareRHS ::
  "env \<Rightarrow> real \<Rightarrow> real \<Rightarrow> real \<Rightarrow> real list \<Rightarrow> real list \<Rightarrow> real list \<Rightarrow> real list \<Rightarrow> real list
     \<Rightarrow> real list \<times> real list \<times> real list" where
  "RK_PrepareRHS env t pr H Y F0 Z1 Z2 Z3 =
     (let R1 = map (\<lambda>i. Z1 ! i) [0..<NN env];
          R2 = map (\<lambda>i. Z2 ! i) [0..<NN env];
          R3 = map (\<lambda>i. Z3 ! i) [0..<NN env];
          TMP = WADD env Y Z1;
          F = dydt env (t + rkC ! 0 * H) pr TMP;
          (R1, R2, R3) = DAXPY3 env (- H * rkA ! 0 ! 0) (- H * rkA ! 1 ! 0) (- H * rkA ! 2 ! 0)
                           F R1 R2 R3;
          TMP = WADD env Y Z2;
          F = dydt env (t + rkC ! 1 * H) pr TMP;
          (R1, R2, R3) = DAXPY3 env (- H * rkA ! 0 ! 1) (- H * rkA ! 1 ! 1) (- H * rkA ! 2 ! 1)
                           F R1 R2 R3;
          TMP = WADD env Y Z3;
          F = dydt env (t + rkC ! 2 * H) pr TMP
      in DAXPY3 env (- H * rkA ! 0 ! 2) (- H * rkA ! 1 ! 2) (- H * rkA ! 2 ! 2) F R1 R2 R3)"

subsection \<open>RK\_Solve (lines 301-347)\<close>

text \<open>The result is \<open>Inl c\<close> when the function ends the process with \<^verbatim>\<open>exit(c)\<close>.\<close>

definition RK_Solve ::
  "env \<Rightarrow> real \<Rightarrow> real list \<Rightarrow> complex list \<Rightarrow> real list \<Rightarrow> real list \<Rightarrow> real list
     \<Rightarrow> int list \<Rightarrow> int list \<Rightarrow> int + real list \<times> real list \<times> real list" where
  "RK_Solve env H E1 E2 R1 R2 R3 ipiv1 ipiv2 =
     (let n = NN env;
          mix = (\<lambda>M r x1 x2 x3. M ! r ! 0 * x1 + M ! r ! 1 * x2 + M ! r ! 2 * x3);
          R1a = map (\<lambda>i. mix rkTinvAinv 0 (R1 ! i / H) (R2 ! i / H) (R3 ! i / H)) [0..<n];
          R2a = map (\<lambda>i. mix rkTinvAinv 1 (R1 ! i / H) (R2 ! i / H) (R3 ! i / H)) [0..<n];
          R3a = map (\<lambda>i. mix rkTinvAinv 2 (R1 ! i / H) (R2 ! i / H) (R3 ! i / H)) [0..<n];
          (R1b, info) = dgetrs env n E1 ipiv1 R1a
      in if info \<noteq> 0 then Inl (- 1)
         else (let temp = map (\<lambda>i. Complex (R2a ! i) (R3a ! i)) [0..<n];
                   (temp', info') = zgetrs env n E2 ipiv2 temp
               in if info' \<noteq> 0 then Inl (- 1)
                  else (let R2b = map (\<lambda>i. Re (temp' ! i)) [0..<n];
                            R3b = map (\<lambda>i. Im (temp' ! i)) [0..<n]
                        in Inr (map (\<lambda>i. mix rkT 0 (R1b ! i) (R2b ! i) (R3b ! i)) [0..<n],
                                map (\<lambda>i. mix rkT 1 (R1b ! i) (R2b ! i) (R3b ! i)) [0..<n],
                                map (\<lambda>i. mix rkT 2 (R1b ! i) (R2b ! i) (R3b ! i)) [0..<n]))))"

subsection \<open>RK\_ErrorNorm (lines 349-375)\<close>

text \<open>The loop \<^verbatim>\<open>for (i = 0; i < start; i++) sums[i] += ...\<close> that takes the first
  \<open>NN mod UNROLL\<close> components.\<close>

definition mod_part :: "nat \<Rightarrow> real list \<Rightarrow> real list \<Rightarrow> real list \<Rightarrow> real list" where
  "mod_part start scl DY sms =
     fold (\<lambda>i sms. sms[i := sms ! i + scl ! i * scl ! i * DY ! i * DY ! i]) [0..<start] sms"

text \<open>The unrolled loop \<^verbatim>\<open>for (i = start; i < NN; i += UNROLL) for (j = 0; j < UNROLL; ++j)\<close>.\<close>

function unrolled_summer ::
  "nat \<Rightarrow> real list \<Rightarrow> real list \<Rightarrow> nat \<Rightarrow> real list \<Rightarrow> real list" where
  "unrolled_summer n scl DY i sms =
     (if i < n
      then unrolled_summer n scl DY (i + UNROLL)
             (fold (\<lambda>j sms. sms[j := sms ! j
                       + scl ! (i + j) * scl ! (i + j) * DY ! (i + j) * DY ! (i + j)])
                [0..<UNROLL] sms)
      else sms)"
  by pat_completeness auto
termination
  by (relation "measure (\<lambda>(n, scl, DY, i, sms). n - i)") (auto simp: UNROLL_def)

declare unrolled_summer.simps [simp del]

text \<open>
  The last loop is \<^verbatim>\<open>for (int i = 0; i <= UNROLL; ++i) sum += sums[i];\<close>. The array has
  \<open>UNROLL\<close> elements, so the read at \<open>i = UNROLL\<close> is behind its end; \<open>past\<close> is the double
  that lies there. \<open>sums_read sums past i\<close> is what \<^verbatim>\<open>sums[i]\<close> reads, and
  \<open>sums_in_bounds i\<close> says whether that read is inside the array.
\<close>

definition sums_read :: "real list \<Rightarrow> real \<Rightarrow> nat \<Rightarrow> real" where
  "sums_read sms past i = (if i < UNROLL then sms ! i else past)"

definition sums_in_bounds :: "nat \<Rightarrow> bool" where
  "sums_in_bounds i = (i < UNROLL)"

definition add_sums_indices :: "nat list" where
  "add_sums_indices = [0..<Suc UNROLL]"

definition add_sums :: "real list \<Rightarrow> real \<Rightarrow> real" where
  "add_sums sms past = fold (\<lambda>i sum. sum + sums_read sms past i) add_sums_indices 0"

definition partial_sums :: "nat \<Rightarrow> real list \<Rightarrow> real list \<Rightarrow> real list" where
  "partial_sums n scl DY =
     (let sms = replicate UNROLL 0;
          start = n mod UNROLL;
          sms = (if start \<noteq> 0 then mod_part start scl DY sms else sms)
      in unrolled_summer n scl DY start sms)"

definition RK_ErrorNorm :: "env \<Rightarrow> real list \<Rightarrow> real list \<Rightarrow> real" where
  "RK_ErrorNorm env scl DY =
     (let sum = add_sums (partial_sums (NN env) scl DY) (sums_oob env scl DY)
      in max (sqrt (sum / real (NN env))) (1 / 10 ^ 10))"

subsection \<open>RK\_ErrorEstimate (lines 377-418)\<close>

definition RK_ErrorEstimate ::
  "env \<Rightarrow> real \<Rightarrow> real \<Rightarrow> real \<Rightarrow> real list \<Rightarrow> real list \<Rightarrow> real list \<Rightarrow> real list \<Rightarrow> real list
     \<Rightarrow> real list \<Rightarrow> real list \<Rightarrow> int list \<Rightarrow> bool \<Rightarrow> bool \<Rightarrow> int + real" where
  "RK_ErrorEstimate env H t pr Y F0 Z1 Z2 Z3 scl E1 ipiv1 FirstStep Reject =
     (let n = NN env;
          HrkE1 = rkE ! 1 / H;
          HrkE2 = rkE ! 2 / H;
          HrkE3 = rkE ! 3 / H;
          F2 = map (\<lambda>i. HrkE1 * Z1 ! i + HrkE2 * Z2 ! i + HrkE3 * Z3 ! i) [0..<n];
          TMP = map (\<lambda>i. rkE ! 0 * F0 ! i + F2 ! i) [0..<n];
          (TMP, info) = dgetrs env n E1 ipiv1 TMP
      in if info \<noteq> 0 then Inl (- 1)
         else (let Err = RK_ErrorNorm env scl TMP in
               if Err \<ge> 1.0 \<and> (FirstStep \<or> Reject)
               then (let TMP = map (\<lambda>i. TMP ! i + Y ! i) [0..<n];
                         F1 = dydt env t pr TMP;
                         TMP = map (\<lambda>i. F1 ! i + F2 ! i) [0..<n];
                         (TMP, info) = dgetrs env n E1 ipiv1 TMP
                     in if info \<noteq> 0 then Inl (- 1)
                        else Inr (RK_ErrorNorm env scl TMP))
               else Inr Err))"

subsection \<open>integrate: the local variables (lines 424-464 and 511-515)\<close>

text \<open>
  The result vector of \<^verbatim>\<open>integrate\<close>: the caller's array \<^verbatim>\<open>y\<close> after the call. \<open>NaN\<close> is
  the value of \<^verbatim>\<open>logf(-1)\<close>.
\<close>

datatype dbl = Fin real | NaN

text \<open>
  How a block of statements ends: it runs to its end (\<open>Fallthrough\<close>), or it leaves by
  \<^verbatim>\<open>break\<close>, \<^verbatim>\<open>continue\<close>, \<^verbatim>\<open>return\<close> (with the contents of the caller's \<^verbatim>\<open>y\<close>) or
  \<^verbatim>\<open>exit(c)\<close>.
\<close>

datatype ctl = Fallthrough | Break | Continue | Return "dbl list" | Exit int

text \<open>What a call of \<^verbatim>\<open>integrate\<close> does: it returns, or it ends the process.\<close>

datatype outcome = Returned "dbl list" | Exited int

text \<open>
  All local variables of \<^verbatim>\<open>integrate\<close> in one record: those declared before the loop,
  those declared in the body of the \<^verbatim>\<open>while\<close> loop (\<open>NewtonDone\<close>, \<open>NewtonIncrementOld\<close>,
  \<open>Fac\<close>, \<open>NewtonIter\<close>, \<open>Theta\<close>, \<open>Err\<close>) and \<open>NewtonIncrement\<close> of the body of the
  Newton loop. \<open>y\<close> is the caller's array.
\<close>

record locals =
  Hmin :: real
  Hold :: real
  Hacc :: real
  ErrOld :: real
  H :: real
  Hnew :: real
  t :: real
  Reject :: bool
  FirstStep :: bool
  SkipJac :: bool
  SkipLU :: bool
  sc :: "real list"
  A :: "real list"
  E1 :: "real list"
  E2 :: "complex list"
  ipiv1 :: "int list"
  ipiv2 :: "int list"
  Z1 :: "real list"
  Z2 :: "real list"
  Z3 :: "real list"
  DZ1 :: "real list"
  DZ2 :: "real list"
  DZ3 :: "real list"
  CONT :: "real list"
  y :: "real list"
  y0 :: "real list"
  F0 :: "real list"
  info :: int
  Nconsecutive :: int
  Nsteps :: int
  NewtonRate :: real
  NewtonDone :: bool
  NewtonIncrementOld :: real
  Fac :: real
  NewtonIter :: int
  Theta :: real
  NewtonIncrement :: real
  Err :: real

text \<open>
  The state at the first test of the loop condition (lines 425-464). The variables the
  source leaves uninitialised there (\<open>Hnew\<close>, \<open>E1\<close>, \<open>E2\<close>, the pivots, the \<open>Z\<close> and \<open>DZ\<close>
  vectors, \<open>CONT\<close>, \<open>F0\<close> and the variables of the loop bodies) are written before they
  are read; the model gives them zeros and empty lists.
\<close>

definition integrate_init :: "env \<Rightarrow> real \<Rightarrow> real list \<Rightarrow> locals" where
  "integrate_init env t_start y_in =
     \<lparr> Hmin = 0, Hold = 0, Hacc = 0, ErrOld = 0,
       H = 0.0000005, Hnew = 0,
       t = t_start,
       Reject = False, FirstStep = True, SkipJac = False, SkipLU = False,
       sc = scale_init env y_in,
       A = replicate (NN env * NN env) 0.0,
       E1 = [], E2 = [], ipiv1 = [], ipiv2 = [],
       Z1 = [], Z2 = [], Z3 = [], DZ1 = [], DZ2 = [], DZ3 = [], CONT = [],
       y = y_in,
       y0 = map (\<lambda>i. y_in ! i) [0..<NN env],
       F0 = [],
       info = 0, Nconsecutive = 0, Nsteps = 0,
       NewtonRate = 2.0 powr 1.25,
       NewtonDone = False, NewtonIncrementOld = 0, Fac = 0, NewtonIter = 0, Theta = 0,
       NewtonIncrement = 0, Err = 0 \<rparr>"

subsection \<open>integrate: Jacobian and LU factorisation (lines 466-493)\<close>

definition step_lu :: "env \<Rightarrow> real \<Rightarrow> locals \<Rightarrow> ctl \<times> locals" where
  "step_lu env pr s =
     (let s = (if \<not> Reject s then s\<lparr>F0 := dydt env (t s) pr (y s)\<rparr> else s) in
      if \<not> SkipLU s
      then (let s = (if \<not> SkipJac s then s\<lparr>A := eval_jacob env (t s) pr (y s)\<rparr> else s);
                (E1', E2', ipiv1', ipiv2', info') = RK_Decomp env (H s) (A s) (ipiv2 s);
                s = s\<lparr>E1 := E1', E2 := E2', ipiv1 := ipiv1', ipiv2 := ipiv2', info := info'\<rparr>
            in if info s \<noteq> 0
               then (let s = s\<lparr>Nconsecutive := Nconsecutive s + 1\<rparr> in
                     if Nconsecutive s \<ge> 5
                     then (Return ((map Fin (y s))[0 := NaN]), s)
                     else (Continue, s\<lparr>H := H s * 0.5, Reject := True, SkipJac := True,
                                        SkipLU := False\<rparr>))
               else (Fallthrough, s\<lparr>Nconsecutive := 0\<rparr>))
      else (Fallthrough, s))"

subsection \<open>integrate: step counter and step-size test (lines 494-503)\<close>

definition step_checks :: "locals \<Rightarrow> ctl \<times> locals" where
  "step_checks s =
     (let s = s\<lparr>Nsteps := Nsteps s + 1\<rparr> in
      if Nsteps s \<ge> Max_no_steps then (Exit (- 1), s)
      else if 0.1 * \<bar>H s\<bar> \<le> \<bar>t s\<bar> * Roundoff then (Exit (- 1), s)
      else (Fallthrough, s))"

subsection \<open>integrate: starting values of the Newton iteration (lines 504-518)\<close>

definition newton_start :: "env \<Rightarrow> locals \<Rightarrow> locals" where
  "newton_start env s =
     (let s = (if FirstStep s \<or> \<not> StartNewton
               then s\<lparr>Z1 := replicate (NN env) 0, Z2 := replicate (NN env) 0,
                      Z3 := replicate (NN env) 0\<rparr>
               else (let (Z1', Z2', Z3') = RK_Interpolate env (H s) (Hold s) (CONT s)
                     in s\<lparr>Z1 := Z1', Z2 := Z2', Z3 := Z3'\<rparr>));
          s = s\<lparr>NewtonDone := False, NewtonIncrementOld := 0, Fac := 0.5, NewtonIter := 0,
                 Theta := 0\<rparr>
      in s\<lparr>NewtonRate := (max (NewtonRate s) EPS) powr 0.8\<rparr>)"

subsection \<open>integrate: the Newton loop (lines 520-566)\<close>

text \<open>Lines 549-565: the update of the stages and the convergence test.\<close>

definition newton_update :: "env \<Rightarrow> locals \<Rightarrow> ctl \<times> locals" where
  "newton_update env s =
     (let s = s\<lparr>NewtonIncrementOld := max (NewtonIncrement s) Roundoff\<rparr>;
          s = s\<lparr>Z1 := map (\<lambda>i. Z1 s ! i - DZ1 s ! i) [0..<NN env],
                 Z2 := map (\<lambda>i. Z2 s ! i - DZ2 s ! i) [0..<NN env],
                 Z3 := map (\<lambda>i. Z3 s ! i - DZ3 s ! i) [0..<NN env]\<rparr>;
          s = s\<lparr>NewtonDone := (NewtonRate s * NewtonIncrement s \<le> NewtonTol)\<rparr>
      in if NewtonDone s then (Break, s)
         else if NewtonIter s = NewtonMaxit - 1
              then (Return ((map Fin (y s))[0 := NaN]), s)
              else (Fallthrough, s))"

text \<open>Lines 527-547: the convergence rate \<open>Theta\<close> and the two ways to give up.\<close>

definition newton_rate :: "env \<Rightarrow> locals \<Rightarrow> ctl \<times> locals" where
  "newton_rate env s =
     (let s = s\<lparr>Theta := ThetaMin\<rparr> in
      if NewtonIter s > 0
      then (let s = s\<lparr>Theta := NewtonIncrement s / NewtonIncrementOld s\<rparr> in
            if Theta s < 0.99
            then (let s = s\<lparr>NewtonRate := Theta s / (1.0 - Theta s)\<rparr> in
                  if NewtonIter s < NewtonMaxit
                  then (let NewtonPredictedErr =
                              (NewtonIncrement s
                                 * Theta s powr real_of_int (NewtonMaxit - NewtonIter s - 1))
                              / (1.0 - Theta s)
                        in if NewtonPredictedErr \<ge> NewtonTol
                           then (let Qnewton = min 10.0 (NewtonPredictedErr / NewtonTol) in
                                 (Break, s\<lparr>Fac := 0.8 * Qnewton powr
                                            (- 1.0 / real_of_int (NewtonMaxit - NewtonIter s))\<rparr>))
                           else newton_update env s)
                  else newton_update env s)
            else (Break, s))
      else newton_update env s)"

text \<open>Lines 521-526, followed by the rest of the body.\<close>

definition newton_body :: "env \<Rightarrow> real \<Rightarrow> locals \<Rightarrow> ctl \<times> locals" where
  "newton_body env pr s =
     (let (R1, R2, R3) = RK_PrepareRHS env (t s) pr (H s) (y s) (F0 s) (Z1 s) (Z2 s) (Z3 s);
          s = s\<lparr>DZ1 := R1, DZ2 := R2, DZ3 := R3\<rparr>
      in case RK_Solve env (H s) (E1 s) (E2 s) (DZ1 s) (DZ2 s) (DZ3 s) (ipiv1 s) (ipiv2 s) of
           Inl c \<Rightarrow> (Exit c, s)
         | Inr (R1, R2, R3) \<Rightarrow>
             (let s = s\<lparr>DZ1 := R1, DZ2 := R2, DZ3 := R3\<rparr>;
                  d1 = RK_ErrorNorm env (sc s) (DZ1 s);
                  d2 = RK_ErrorNorm env (sc s) (DZ2 s);
                  d3 = RK_ErrorNorm env (sc s) (DZ3 s);
                  s = s\<lparr>NewtonIncrement := sqrt ((d1 * d1 + d2 * d2 + d3 * d3) / 3.0)\<rparr>
              in newton_rate env s))"

text \<open>
  \<^verbatim>\<open>for (; NewtonIter < NewtonMaxit; NewtonIter++)\<close>. The result is \<open>Fallthrough\<close> when the
  loop ends because its condition is false, and otherwise the way the body left it.
\<close>

function newton_loop :: "env \<Rightarrow> real \<Rightarrow> locals \<Rightarrow> ctl \<times> locals" where
  "newton_loop env pr s =
     (if NewtonIter s < NewtonMaxit
      then (case newton_body env pr s of
              (Fallthrough, s') \<Rightarrow> newton_loop env pr (s'\<lparr>NewtonIter := NewtonIter s' + 1\<rparr>)
            | (Continue, s') \<Rightarrow> newton_loop env pr (s'\<lparr>NewtonIter := NewtonIter s' + 1\<rparr>)
            | (c, s') \<Rightarrow> (c, s'))
      else (Fallthrough, s))"
  by pat_completeness auto

text \<open>
  The number of times the loop enters its body: the same loop, counting. This is a
  counter of the model, not a variable of the source.
\<close>

function newton_passes :: "env \<Rightarrow> real \<Rightarrow> locals \<Rightarrow> nat" where
  "newton_passes env pr s =
     (if NewtonIter s < NewtonMaxit
      then (case newton_body env pr s of
              (Fallthrough, s') \<Rightarrow> Suc (newton_passes env pr (s'\<lparr>NewtonIter := NewtonIter s' + 1\<rparr>))
            | (Continue, s') \<Rightarrow> Suc (newton_passes env pr (s'\<lparr>NewtonIter := NewtonIter s' + 1\<rparr>))
            | (c, s') \<Rightarrow> 1)
      else 0)"
  by pat_completeness auto

subsection \<open>integrate: step-size control, acceptance and rejection (lines 649-702)\<close>

text \<open>Lines 650-652: the classical step-size factor.\<close>

definition classic_factor :: "locals \<Rightarrow> locals" where
  "classic_factor s =
     (let Fac' = Err s powr (- 1.0 / rkELO) * (1.0 + 2 * real_of_int NewtonMaxit)
                   / real_of_int (NewtonIter s + 1 + 2 * NewtonMaxit);
          Fac' = min FacMax (max FacMin Fac')
      in s\<lparr>Fac := Fac', Hnew := Fac' * H s\<rparr>)"

text \<open>Lines 655-660: the predictive controller of Gustafsson.\<close>

definition gustafsson :: "locals \<Rightarrow> locals" where
  "gustafsson s =
     (if \<not> FirstStep s
      then (let FacGus = FacSafe * (H s / Hacc s) * (Err s * Err s / ErrOld s) powr (- 0.25);
                FacGus = min FacMax (max FacMin FacGus);
                Fac' = min (Fac s) FacGus
            in s\<lparr>Fac := Fac', Hnew := Fac' * H s\<rparr>)
      else s)"

text \<open>
  Lines 661-676: the step is committed. The assignments of lines 661-670 read only values
  from before the group, so they are one record update.
\<close>

definition commit_step :: "env \<Rightarrow> locals \<Rightarrow> locals" where
  "commit_step env s =
     (let s = s\<lparr>Hacc := H s, ErrOld := max 0.01 (Err s), FirstStep := False, Hold := H s,
                 t := t s + H s, y := map (\<lambda>i. y s ! i + Z3 s ! i) [0..<NN env]\<rparr>;
          s = (if StartNewton
               then s\<lparr>CONT := RK_Make_Interpolate env (Z1 s) (Z2 s) (Z3 s)\<rparr> else s);
          s = s\<lparr>sc := scale env (y s) (y0 s)\<rparr>
      in s\<lparr>y0 := map (\<lambda>i. y s ! i) [0..<NN env]\<rparr>)"

text \<open>Lines 677-681: the next step size is kept inside its bounds.\<close>

definition clamp_Hnew :: "real \<Rightarrow> locals \<Rightarrow> locals" where
  "clamp_Hnew t_end s =
     (let s = s\<lparr>Hnew := min (max (Hnew s) (Hmin s)) (t_end - t s)\<rparr>;
          s = (if Reject s then s\<lparr>Hnew := min (Hnew s) (H s)\<rparr> else s)
      in s\<lparr>Reject := False\<rparr>)"

text \<open>Lines 682-689: the last step, or else the decision to reuse the factorisation.\<close>

definition decide_reuse :: "real \<Rightarrow> locals \<Rightarrow> locals" where
  "decide_reuse t_end s =
     (if t s + Hnew s / Qmin - t_end \<ge> 0.0
      then s\<lparr>H := t_end - t s\<rparr>
      else (let Hratio = Hnew s / H s;
                s = s\<lparr>SkipLU := (Theta s \<le> ThetaMin \<and> Hratio \<ge> Qmin \<and> Hratio \<le> Qmax)\<rparr>
            in if \<not> SkipLU s then s\<lparr>H := Hnew s\<rparr> else s))"

text \<open>Lines 677-691.\<close>

definition next_step_size :: "real \<Rightarrow> locals \<Rightarrow> locals" where
  "next_step_size t_end s =
     (let s = decide_reuse t_end (clamp_Hnew t_end s)
      in s\<lparr>SkipJac := (NewtonIter s = 1 \<or> NewtonRate s \<le> ThetaMin)\<rparr>)"

text \<open>Lines 693-702: the step is rejected.\<close>

definition reject_step :: "locals \<Rightarrow> locals" where
  "reject_step s =
     (let s = (if FirstStep s \<or> Reject s then s\<lparr>H := FacRej * H s\<rparr> else s\<lparr>H := Hnew s\<rparr>)
      in s\<lparr>Reject := True, SkipJac := True, SkipLU := False\<rparr>)"

definition step_control :: "env \<Rightarrow> real \<Rightarrow> locals \<Rightarrow> locals" where
  "step_control env t_end s =
     (let s = classic_factor s in
      if Err s < 1.0 then next_step_size t_end (commit_step env (gustafsson s))
      else reject_step s)"

subsection \<open>integrate: one pass through the body of the while loop (lines 466-702)\<close>

text \<open>Lines 567-648: what follows the Newton loop, up to the error estimate.\<close>

definition step_after_newton :: "env \<Rightarrow> real \<Rightarrow> real \<Rightarrow> locals \<Rightarrow> ctl \<times> locals" where
  "step_after_newton env t_end pr s =
     (if \<not> NewtonDone s
      then (Continue, s\<lparr>H := Fac s * H s, Reject := True, SkipJac := True, SkipLU := False\<rparr>)
      else (case RK_ErrorEstimate env (H s) (t s) pr (y s) (F0 s) (Z1 s) (Z2 s) (Z3 s) (sc s)
                   (E1 s) (ipiv1 s) (FirstStep s) (Reject s) of
              Inl c \<Rightarrow> (Exit c, s)
            | Inr e \<Rightarrow> (Fallthrough, step_control env t_end (s\<lparr>Err := e\<rparr>))))"

definition integrate_body :: "env \<Rightarrow> real \<Rightarrow> real \<Rightarrow> locals \<Rightarrow> ctl \<times> locals" where
  "integrate_body env t_end pr s =
     (case step_lu env pr s of
        (Fallthrough, s1) \<Rightarrow>
          (case step_checks s1 of
             (Fallthrough, s2) \<Rightarrow>
               (case newton_loop env pr (newton_start env s2) of
                  (Fallthrough, s3) \<Rightarrow> step_after_newton env t_end pr s3
                | (Break, s3) \<Rightarrow> step_after_newton env t_end pr s3
                | (c, s3) \<Rightarrow> (c, s3))
           | (c, s2) \<Rightarrow> (c, s2))
      | (c, s1) \<Rightarrow> (c, s1))"

subsection \<open>integrate: the while loop and the function (lines 424-704)\<close>

function integrate_loop :: "env \<Rightarrow> real \<Rightarrow> real \<Rightarrow> locals \<Rightarrow> outcome" where
  "integrate_loop env t_end pr s =
     (if t s + Roundoff < t_end
      then (case integrate_body env t_end pr s of
              (Fallthrough, s') \<Rightarrow> integrate_loop env t_end pr s'
            | (Continue, s') \<Rightarrow> integrate_loop env t_end pr s'
            | (Break, s') \<Rightarrow> Returned (map Fin (y s'))
            | (Return ys, s') \<Rightarrow> Returned ys
            | (Exit c, s') \<Rightarrow> Exited c)
      else Returned (map Fin (y s)))"
  by pat_completeness auto

definition integrate :: "env \<Rightarrow> real \<Rightarrow> real \<Rightarrow> real \<Rightarrow> real list \<Rightarrow> outcome" where
  "integrate env t_start t_end pr y_in = integrate_loop env t_end pr (integrate_init env t_start y_in)"

subsection \<open>Notions used in the statements\<close>

text \<open>The two counters that bound the number of passes through the loop.\<close>

definition counters :: "locals \<Rightarrow> int \<times> int" where
  "counters s = (Nsteps s, Nconsecutive s)"

text \<open>
  The variables that the Newton loop does not assign (\<open>NewtonIter\<close> apart, which only the
  loop header assigns).
\<close>

definition outer ::
  "locals \<Rightarrow> (real \<times> real \<times> real \<times> real \<times> real \<times> real \<times> real)
     \<times> (bool \<times> bool \<times> bool \<times> bool)
     \<times> (real list \<times> real list \<times> real list \<times> complex list \<times> int list \<times> int list)
     \<times> (real list \<times> real list \<times> real list \<times> real list)
     \<times> (int \<times> int \<times> int \<times> real)" where
  "outer s = ((Hmin s, Hold s, Hacc s, ErrOld s, H s, Hnew s, t s),
              (Reject s, FirstStep s, SkipJac s, SkipLU s),
              (sc s, A s, E1 s, E2 s, ipiv1 s, ipiv2 s),
              (CONT s, y s, y0 s, F0 s),
              (info s, Nconsecutive s, Nsteps s, Err s))"


text \<open>
  The state in which the Newton loop of the pass that starts in \<open>s\<close> ends (when the pass
  gets that far): \<open>step_lu\<close>, \<open>step_checks\<close>, \<open>newton_start\<close> and \<open>newton_loop\<close> in turn.
\<close>

definition newton_result :: "env \<Rightarrow> real \<Rightarrow> locals \<Rightarrow> locals" where
  "newton_result env pr s =
     snd (newton_loop env pr (newton_start env (snd (step_checks (snd (step_lu env pr s))))))"

text \<open>
  \<open>reachable env t_start t_end pr y_in s\<close>: the call
  \<^verbatim>\<open>integrate(t_start, t_end, pr, y)\<close> with \<open>y = y_in\<close> tests the condition of its while loop
  in state \<open>s\<close>.
\<close>

inductive reachable :: "env \<Rightarrow> real \<Rightarrow> real \<Rightarrow> real \<Rightarrow> real list \<Rightarrow> locals \<Rightarrow> bool"
  for env t_start t_end pr y_in where
  reachable_init: "reachable env t_start t_end pr y_in (integrate_init env t_start y_in)"
| reachable_step:
    "reachable env t_start t_end pr y_in s \<Longrightarrow> t s + Roundoff < t_end \<Longrightarrow>
     integrate_body env t_end pr s = (c, s') \<Longrightarrow> c = Fallthrough \<or> c = Continue \<Longrightarrow>
     reachable env t_start t_end pr y_in s'"

subsection \<open>What the specification says (spec.md, sections 4.1 and 4.3)\<close>

text \<open>The norm of section 4.1: \<open>max(1e-10, sqrt(mean_i (sc[i] * v[i])^2))\<close>.\<close>

definition spec_ErrorNorm :: "env \<Rightarrow> real list \<Rightarrow> real list \<Rightarrow> real" where
  "spec_ErrorNorm env scl v =
     max (1 / 10 ^ 10) (sqrt ((\<Sum>i<NN env. (scl ! i * v ! i) ^ 2) / real (NN env)))"

text \<open>The warm start of section 4.3: \<open>Z_i = CONT[0] + x_i * (CONT[1] + x_i * CONT[2])\<close> with
  \<open>x_i = 1 + c_i * (h / h_old)\<close>, the same abscissa twice in every stage.\<close>

definition spec_Interpolate ::
  "env \<Rightarrow> real \<Rightarrow> real \<Rightarrow> real list \<Rightarrow> real list \<times> real list \<times> real list" where
  "spec_Interpolate env h h_old cont =
     (let x = (\<lambda>i. 1 + rkC ! i * (h / h_old));
          n = NN env;
          Z = (\<lambda>i. map (\<lambda>j. cont ! j + x i * (cont ! (n + j) + x i * cont ! (n + n + j))) [0..<n])
      in (Z 0, Z 1, Z 2))"

subsection \<open>SolverOptions (generic/opencl/solver.hpp, lines 90-166)\<close>

text \<open>
  The constructor stores its arguments, \<^verbatim>\<open>use_queue\<close> apart, which it drops; the \<^verbatim>\<open>int\<close>
  \<^verbatim>\<open>numBlocks\<close> becomes a \<^verbatim>\<open>size_t\<close> (64 bits). \<open>SolverOptions_default\<close> is the object built
  from the default arguments.
\<close>

record SolverOptions =
  vectorSize :: nat
  blockSize :: nat
  numBlocks :: nat
  atol :: real
  rtol :: real
  logging :: bool
  h_init :: real
  data_order :: char

definition SolverOptions_new ::
  "nat \<Rightarrow> nat \<Rightarrow> int \<Rightarrow> real \<Rightarrow> real \<Rightarrow> bool \<Rightarrow> real \<Rightarrow> bool \<Rightarrow> char \<Rightarrow> SolverOptions" where
  "SolverOptions_new vectorSize' blockSize' numBlocks' atol' rtol' logging' h_init' use_queue order' =
     \<lparr> vectorSize = vectorSize', blockSize = blockSize',
       numBlocks = nat (numBlocks' mod 2 ^ 64),
       atol = atol', rtol = rtol', logging = logging', h_init = h_init',
       data_order = order' \<rparr>"

definition SolverOptions_default :: SolverOptions where
  "SolverOptions_default =
     SolverOptions_new 1 1 (- 1) (1 / 10 ^ 10) (1 / 10 ^ 6) False (1 / 10 ^ 6) True (CHR ''C'')"

subsection \<open>Concrete problems\<close>

text \<open>
  LAPACK on 1 x 1 systems: the factors of \<open>[a]\<close> are \<open>[a]\<close> itself with pivot 1, \<open>info\<close> is 1
  when \<open>a = 0\<close>, and the solution of \<open>a * x = b\<close> is \<open>b / a\<close>.
\<close>

definition dgetrf1 :: "nat \<Rightarrow> real list \<Rightarrow> real list \<times> int list \<times> int" where
  "dgetrf1 n M = (M, [1], if M ! 0 = 0 then 1 else 0)"

definition zgetrf1 :: "nat \<Rightarrow> complex list \<Rightarrow> complex list \<times> int list \<times> int" where
  "zgetrf1 n M = (M, [1], if M ! 0 = 0 then 1 else 0)"

definition dgetrs1 :: "nat \<Rightarrow> real list \<Rightarrow> int list \<Rightarrow> real list \<Rightarrow> real list \<times> int" where
  "dgetrs1 n M ipiv B = ([B ! 0 / M ! 0], 0)"

definition zgetrs1 :: "nat \<Rightarrow> complex list \<Rightarrow> int list \<Rightarrow> complex list \<Rightarrow> complex list \<times> int" where
  "zgetrs1 n M ipiv B = ([B ! 0 / M ! 0], 0)"

text \<open>
  The scalar problem \<open>y' = pr\<close> at \<open>t = 0\<close> and \<open>y' = 0\<close> at every other time, with the exact
  Jacobian 0, the default tolerances of solver.hpp, and a zero behind \<^verbatim>\<open>sums\<close>.
\<close>

definition impulse_env :: env where
  "impulse_env =
     \<lparr> NN = 1, ATOL = 1 / 10 ^ 10, RTOL = 1 / 10 ^ 6,
       dydt = (\<lambda>t pr y. [if t = 0 then pr else 0]),
       eval_jacob = (\<lambda>t pr y. [0]),
       dgetrf = dgetrf1, zgetrf = zgetrf1, dgetrs = dgetrs1, zgetrs = zgetrs1,
       sums_oob = (\<lambda>scl DY. 0) \<rparr>"

text \<open>The same problem on a machine where a 1.0 lies behind \<^verbatim>\<open>sums\<close>.\<close>

definition garbage_env :: env where
  "garbage_env = impulse_env\<lparr>sums_oob := (\<lambda>scl DY. 1)\<rparr>"

text \<open>
  A run of the impulse problem from 0 to \<open>impulse_t_end\<close>, with \<open>pr\<close> chosen so that the
  error estimate of the first step is \<open>0.9 ^ 4\<close>. The states below are the ones the first
  two passes through the body of the while loop go through: \<open>imp1\<close> after the
  factorisation, \<open>imp2\<close> at the head of the Newton loop, \<open>imp3\<close> behind it, \<open>impA\<close> at the
  end of the first pass; \<open>impB2\<close>, \<open>impB3\<close> and \<open>impB\<close> likewise in the second pass.
\<close>

definition impulse_pr :: real where "impulse_pr = 0.0026244 * rkGamma"

definition impulse_t_end :: real where "impulse_t_end = 0.000001075"

definition imp0 :: locals where "imp0 = integrate_init impulse_env 0 [0]"

definition imp1 :: locals where
  "imp1 = imp0\<lparr>F0 := [impulse_pr], A := [0], E1 := [rkGamma / 0.0000005],
            E2 := [Complex (rkAlpha / 0.0000005) (rkBeta / 0.0000005)],
            ipiv1 := [1], ipiv2 := [1], info := 0, Nconsecutive := 0\<rparr>"

definition imp2 :: locals where
  "imp2 = imp1\<lparr>Nsteps := 1, Z1 := [0], Z2 := [0], Z3 := [0], NewtonDone := False,
            NewtonIncrementOld := 0, Fac := 0.5, NewtonIter := 0, Theta := 0, NewtonRate := 2\<rparr>"

definition imp3 :: locals where
  "imp3 = imp2\<lparr>DZ1 := [0], DZ2 := [0], DZ3 := [0], NewtonIncrement := 1 / 10 ^ 10,
            Theta := ThetaMin, NewtonIncrementOld := 1 / 10 ^ 10,
            Z1 := [0], Z2 := [0], Z3 := [0], NewtonDone := True\<rparr>"

definition impA :: locals where
  "impA = imp3\<lparr>Err := 0.6561, Fac := 10 / 9, Hnew := 10 / 9 * 0.0000005, Hacc := 0.0000005,
            ErrOld := 0.6561, FirstStep := False, Hold := 0.0000005, t := 0.0000005,
            y := [0], CONT := [0, 0, 0], sc := [10 ^ 10], y0 := [0], Reject := False,
            SkipLU := True, SkipJac := False\<rparr>"

definition impB2 :: locals where
  "impB2 = impA\<lparr>F0 := [0], Nsteps := 2, Z1 := [0], Z2 := [0], Z3 := [0], NewtonDone := False,
              NewtonIncrementOld := 0, Fac := 0.5, NewtonIter := 0, Theta := 0,
              NewtonRate := 2 powr 0.8\<rparr>"

definition impB3 :: locals where
  "impB3 = impB2\<lparr>DZ1 := [0], DZ2 := [0], DZ3 := [0], NewtonIncrement := 1 / 10 ^ 10,
              Theta := ThetaMin, NewtonIncrementOld := 1 / 10 ^ 10,
              Z1 := [0], Z2 := [0], Z3 := [0], NewtonDone := True\<rparr>"

definition impB :: locals where
  "impB = step_control impulse_env impulse_t_end (impB3\<lparr>Err := 1 / 10 ^ 10\<rparr>)"

text \<open>The state after \<open>n\<close> passes through the body of the while loop that start in \<open>s\<close>.\<close>

primrec passes :: "env \<Rightarrow> real \<Rightarrow> real \<Rightarrow> nat \<Rightarrow> locals \<Rightarrow> locals" where
  "passes env t_end pr 0 s = s"
| "passes env t_end pr (Suc n) s = snd (integrate_body env t_end pr (passes env t_end pr n s))"

text \<open>
  LAPACK on diagonal matrices: the factors of a diagonal matrix are the matrix itself, no
  rows are exchanged, \<open>info\<close> is the (1-based) index of the first zero on the diagonal, or
  0, and the solution of \<open>D * x = b\<close> is \<open>b[i] / D[i, i]\<close>.
\<close>

definition getrf_diag :: "nat \<Rightarrow> ('a :: zero) list \<Rightarrow> 'a list \<times> int list \<times> int" where
  "getrf_diag n M =
     (M, map (\<lambda>i. int i + 1) [0..<n],
      case List.find (\<lambda>i. M ! (i + i * n) = 0) [0..<n] of None \<Rightarrow> 0 | Some i \<Rightarrow> int i + 1)"

definition getrs_diag :: "nat \<Rightarrow> ('a :: field) list \<Rightarrow> int list \<Rightarrow> 'a list \<Rightarrow> 'a list \<times> int" where
  "getrs_diag n M ipiv B = (map (\<lambda>i. B ! i / M ! (i + i * n)) [0..<n], 0)"

text \<open>
  The linear problem \<open>y[i]' = diag_rate i * y[i]\<close> in five unknowns, with its exact
  Jacobian and the default tolerances. Its rates are such that the real matrix of
  \<^verbatim>\<open>RK_Decomp\<close>, \<open>rkGamma / H * I - J\<close>, is singular at the initial step size and at each of
  its first four halvings.
\<close>

definition diag_rate :: "nat \<Rightarrow> real" where
  "diag_rate i = 2 ^ i * (rkGamma / 0.0000005)"

definition diag_env :: env where
  "diag_env =
     \<lparr> NN = 5, ATOL = 1 / 10 ^ 10, RTOL = 1 / 10 ^ 6,
       dydt = (\<lambda>t pr y. map (\<lambda>i. diag_rate i * y ! i) [0..<5]),
       eval_jacob = (\<lambda>t pr y. map (\<lambda>k. if k mod 5 = k div 5 then diag_rate (k mod 5) else 0)
                                [0..<25]),
       dgetrf = getrf_diag, zgetrf = getrf_diag, dgetrs = getrs_diag, zgetrs = getrs_diag,
       sums_oob = (\<lambda>scl DY. 0) \<rparr>"

definition diag_y :: "real list" where "diag_y = [1, 2, 3, 4, 5]"

text \<open>The state of the run of the diagonal problem from 0 to 1, started in \<open>diag_y\<close>, after
  \<open>n\<close> passes.\<close>

definition diag_state :: "nat \<Rightarrow> locals" where
  "diag_state n = passes diag_env 1 0 n (integrate_init diag_env 0 diag_y)"



text \<open>
  A state in which the convergence test of line 559 fails in the last iteration
  \<open>NewtonMaxit - 1\<close> of the Newton loop.
\<close>

definition stuck :: locals where
  "stuck = imp3\<lparr>NewtonIter := 7, NewtonIncrement := 1, NewtonDone := False\<rparr>"

section \<open>Termination of the two loops\<close>

subsection \<open>What a block leaves unchanged\<close>

text \<open>
  Rules that carry a projection \<open>p\<close> of the state through a chain of \<^theory_text>\<open>let\<close> and
  \<^theory_text>\<open>if\<close> without unfolding it.
\<close>

lemma frame_Let: "p a = c \<Longrightarrow> (\<And>x. p x = c \<Longrightarrow> p (g x) = c) \<Longrightarrow> p (Let a g) = c"
  by simp

lemma frame_Let': "(\<And>x. p (g x) = c) \<Longrightarrow> p (Let a g) = c"
  by simp

lemma frame_if: "p a = c \<Longrightarrow> p b = c \<Longrightarrow> p (if q then a else b) = c"
  by simp

lemmas frame = frame_Let frame_Let' frame_if
subsection \<open>The Newton loop\<close>

lemma newton_update_outer:
  "newton_update env s = (c, s') \<Longrightarrow> outer s' = outer s \<and> NewtonIter s' = NewtonIter s"
  by (auto simp: newton_update_def outer_def Let_def split: if_splits)

lemma newton_rate_outer:
  "newton_rate env s = (c, s') \<Longrightarrow> outer s' = outer s \<and> NewtonIter s' = NewtonIter s"
  by (auto simp: newton_rate_def outer_def Let_def split: if_splits dest!: newton_update_outer)

lemma newton_body_outer:
  "newton_body env pr s = (c, s') \<Longrightarrow> outer s' = outer s \<and> NewtonIter s' = NewtonIter s"
  by (auto simp: newton_body_def outer_def Let_def split: if_splits prod.splits sum.splits
           dest!: newton_rate_outer)

termination newton_loop
proof (relation "measure (\<lambda>(env, pr, s). nat (NewtonMaxit - NewtonIter s))")
  show "wf (measure (\<lambda>(env, pr, s). nat (NewtonMaxit - NewtonIter s)))"
    by simp
next
  fix env pr s x1 x2
  assume "NewtonIter s < NewtonMaxit" "(x1, x2) = newton_body env pr s"
  then show "((env, pr, x2\<lparr>NewtonIter := NewtonIter x2 + 1\<rparr>), env, pr, s)
               \<in> measure (\<lambda>(env, pr, s). nat (NewtonMaxit - NewtonIter s))"
    using newton_body_outer[of env pr s x1 x2] by simp
next
  fix env pr s x1 x2
  assume "NewtonIter s < NewtonMaxit" "(x1, x2) = newton_body env pr s"
  then show "((env, pr, x2\<lparr>NewtonIter := NewtonIter x2 + 1\<rparr>), env, pr, s)
               \<in> measure (\<lambda>(env, pr, s). nat (NewtonMaxit - NewtonIter s))"
    using newton_body_outer[of env pr s x1 x2] by simp
qed

declare newton_loop.simps [simp del]

termination newton_passes
proof (relation "measure (\<lambda>(env, pr, s). nat (NewtonMaxit - NewtonIter s))")
  show "wf (measure (\<lambda>(env, pr, s). nat (NewtonMaxit - NewtonIter s)))"
    by simp
next
  fix env pr s x1 x2
  assume "NewtonIter s < NewtonMaxit" "(x1, x2) = newton_body env pr s"
  then show "((env, pr, x2\<lparr>NewtonIter := NewtonIter x2 + 1\<rparr>), env, pr, s)
               \<in> measure (\<lambda>(env, pr, s). nat (NewtonMaxit - NewtonIter s))"
    using newton_body_outer[of env pr s x1 x2] by simp
next
  fix env pr s x1 x2
  assume "NewtonIter s < NewtonMaxit" "(x1, x2) = newton_body env pr s"
  then show "((env, pr, x2\<lparr>NewtonIter := NewtonIter x2 + 1\<rparr>), env, pr, s)
               \<in> measure (\<lambda>(env, pr, s). nat (NewtonMaxit - NewtonIter s))"
    using newton_body_outer[of env pr s x1 x2] by simp
qed

declare newton_passes.simps [simp del]

text \<open>One pass of the loop, as two equations.\<close>

lemma newton_loop_stop:
  "\<not> NewtonIter s < NewtonMaxit \<Longrightarrow> newton_loop env pr s = (Fallthrough, s)"
  by (subst newton_loop.simps) simp

lemma newton_loop_next:
  "NewtonIter s < NewtonMaxit \<Longrightarrow> newton_body env pr s = (Fallthrough, s1) \<Longrightarrow>
   newton_loop env pr s = newton_loop env pr (s1\<lparr>NewtonIter := NewtonIter s1 + 1\<rparr>)"
  by (subst newton_loop.simps) simp

lemma newton_loop_leave:
  "NewtonIter s < NewtonMaxit \<Longrightarrow> newton_body env pr s = (c1, s1) \<Longrightarrow>
   c1 \<noteq> Fallthrough \<Longrightarrow> c1 \<noteq> Continue \<Longrightarrow> newton_loop env pr s = (c1, s1)"
  by (subst newton_loop.simps) (cases c1; simp)

lemma newton_update_ctl:
  "newton_update env s = (c, s') \<Longrightarrow> c = Fallthrough \<or> c = Break \<or> (\<exists>ys. c = Return ys)"
  by (auto simp: newton_update_def Let_def split: if_splits)

lemma newton_rate_ctl:
  "newton_rate env s = (c, s') \<Longrightarrow> c = Fallthrough \<or> c = Break \<or> (\<exists>ys. c = Return ys)"
  by (auto simp: newton_rate_def Let_def split: if_splits dest: newton_update_ctl)

lemma newton_body_ctl:
  "newton_body env pr s = (c, s') \<Longrightarrow>
   c = Fallthrough \<or> c = Break \<or> (\<exists>ys. c = Return ys) \<or> (\<exists>e. c = Exit e)"
  by (auto simp: newton_body_def Let_def split: if_splits prod.splits sum.splits
           dest: newton_rate_ctl)

text \<open>
  Induction over the passes of the Newton loop: a property \<open>P\<close> of the start state and the
  result that holds when the loop stops at once, when the body leaves the loop, and that
  a pass which falls through hands back from the rest of the loop.
\<close>

lemma newton_loop_induct [consumes 1, case_names stop leave step]:
  assumes run: "newton_loop env pr s = (c, s')"
    and stop: "\<And>s. \<not> NewtonIter s < NewtonMaxit \<Longrightarrow> P s Fallthrough s"
    and leave: "\<And>s c1 s1. NewtonIter s < NewtonMaxit \<Longrightarrow> newton_body env pr s = (c1, s1) \<Longrightarrow>
                  c1 \<noteq> Fallthrough \<Longrightarrow> P s c1 s1"
    and step: "\<And>s s1 c s'. NewtonIter s < NewtonMaxit \<Longrightarrow>
                  newton_body env pr s = (Fallthrough, s1) \<Longrightarrow>
                  newton_loop env pr (s1\<lparr>NewtonIter := NewtonIter s1 + 1\<rparr>) = (c, s') \<Longrightarrow>
                  P (s1\<lparr>NewtonIter := NewtonIter s1 + 1\<rparr>) c s' \<Longrightarrow> P s c s'"
  shows "P s c s'"
  using run
proof (induction "nat (NewtonMaxit - NewtonIter s)" arbitrary: s rule: less_induct)
  case less
  show ?case
  proof (cases "NewtonIter s < NewtonMaxit")
    case False
    with less.prems stop show ?thesis by (simp add: newton_loop_stop)
  next
    case True
    obtain c1 s1 where b: "newton_body env pr s = (c1, s1)"
      by (cases "newton_body env pr s")
    show ?thesis
    proof (cases "c1 = Fallthrough")
      case ft: True
      let ?s = "s1\<lparr>NewtonIter := NewtonIter s1 + 1\<rparr>"
      have b': "newton_body env pr s = (Fallthrough, s1)"
        using b ft by simp
      have r: "newton_loop env pr ?s = (c, s')"
        using less.prems newton_loop_next[OF True b'] by simp
      have "nat (NewtonMaxit - NewtonIter ?s) < nat (NewtonMaxit - NewtonIter s)"
        using True newton_body_outer[OF b] by simp
      then have "P ?s c s'"
        using r by (rule less.hyps)
      then show ?thesis
        by (rule step[OF True b' r])
    next
      case False
      moreover from newton_body_ctl[OF b] False have "c1 \<noteq> Continue" by auto
      ultimately have "(c, s') = (c1, s1)"
        using less.prems newton_loop_leave[OF True b] by simp
      with leave[OF True b False] show ?thesis by simp
    qed
  qed
qed

lemma newton_loop_outer: "newton_loop env pr s = (c, s') \<Longrightarrow> outer s' = outer s"
proof (induction rule: newton_loop_induct)
  case (stop s)
  show ?case by simp
next
  case (leave s c1 s1)
  then show ?case by (simp add: newton_body_outer)
next
  case (step s s1 c s')
  from newton_body_outer[OF step(2)] step(4) show ?case by (simp add: outer_def)
qed

subsection \<open>The while loop\<close>

lemma outer_counters: "outer s' = outer s \<Longrightarrow> counters s' = counters s"
  by (simp add: outer_def counters_def)

lemma newton_loop_counters: "newton_loop env pr s = (c, s') \<Longrightarrow> counters s' = counters s"
  by (rule outer_counters) (rule newton_loop_outer)

lemma classic_factor_counters: "counters (classic_factor s) = counters s"
  unfolding classic_factor_def by (intro frame[where p=counters]) (simp_all add: counters_def)

lemma gustafsson_counters: "counters (gustafsson s) = counters s"
  unfolding gustafsson_def by (intro frame[where p=counters]) (simp_all add: counters_def)

lemma commit_step_counters: "counters (commit_step env s) = counters s"
  unfolding commit_step_def by (intro frame[where p=counters]) (simp_all add: counters_def)

lemma clamp_Hnew_counters: "counters (clamp_Hnew t_end s) = counters s"
  unfolding clamp_Hnew_def by (intro frame[where p=counters]) (simp_all add: counters_def)

lemma decide_reuse_counters: "counters (decide_reuse t_end s) = counters s"
  unfolding decide_reuse_def by (intro frame[where p=counters]) (simp_all add: counters_def)

lemma next_step_size_counters: "counters (next_step_size t_end s) = counters s"
  using clamp_Hnew_counters[of t_end s] decide_reuse_counters[of t_end "clamp_Hnew t_end s"]
  by (simp add: next_step_size_def Let_def counters_def)

lemma reject_step_counters: "counters (reject_step s) = counters s"
  unfolding reject_step_def by (intro frame[where p=counters]) (simp_all add: counters_def)

lemma step_control_counters: "counters (step_control env t_end s) = counters s"
  by (simp add: step_control_def Let_def classic_factor_counters gustafsson_counters
        commit_step_counters next_step_size_counters reject_step_counters)

lemma step_after_newton_counters:
  "step_after_newton env t_end pr s = (c, s') \<Longrightarrow> counters s' = counters s"
  using step_control_counters[of env t_end "s\<lparr>Err := e\<rparr>" for e]
  by (auto simp: step_after_newton_def counters_def split: if_splits sum.splits)

lemma newton_start_counters: "counters (newton_start env s) = counters s"
  by (simp add: newton_start_def counters_def Let_def split: prod.splits)

lemma step_checks_Fallthrough:
  "step_checks s = (Fallthrough, s') \<Longrightarrow>
   s' = s\<lparr>Nsteps := Nsteps s + 1\<rparr> \<and> Nsteps s + 1 < Max_no_steps
   \<and> \<not> 0.1 * \<bar>H s\<bar> \<le> \<bar>t s\<bar> * Roundoff"
  by (auto simp: step_checks_def Let_def split: if_splits)

lemma step_lu_Fallthrough:
  "step_lu env pr s = (Fallthrough, s') \<Longrightarrow>
   Nsteps s' = Nsteps s \<and> (Nconsecutive s' = Nconsecutive s \<or> Nconsecutive s' = 0)"
  by (auto simp: step_lu_def Let_def split: if_splits prod.splits)

lemma step_lu_Continue:
  "step_lu env pr s = (Continue, s') \<Longrightarrow>
   Nsteps s' = Nsteps s \<and> Nconsecutive s' = Nconsecutive s + 1 \<and> Nconsecutive s' < 5"
  by (auto simp: step_lu_def Let_def split: if_splits prod.splits)

lemma step_lu_ctl:
  "step_lu env pr s = (c, s') \<Longrightarrow> c = Fallthrough \<or> c = Continue \<or> (\<exists>ys. c = Return ys)"
  by (auto simp: step_lu_def Let_def split: if_splits prod.splits)

lemma step_checks_ctl: "step_checks s = (c, s') \<Longrightarrow> c = Fallthrough \<or> c = Exit (- 1)"
  by (auto simp: step_checks_def Let_def split: if_splits prod.splits)

lemma step_after_newton_ctl:
  "step_after_newton env t_end pr s = (c, s') \<Longrightarrow>
   c = Fallthrough \<or> c = Continue \<or> (\<exists>e. c = Exit e)"
  by (auto simp: step_after_newton_def split: if_splits sum.splits)

lemma newton_loop_ctl:
  "newton_loop env pr s = (c, s') \<Longrightarrow>
   c = Fallthrough \<or> c = Break \<or> (\<exists>ys. c = Return ys) \<or> (\<exists>e. c = Exit e)"
proof (induction rule: newton_loop_induct)
  case (leave s c1 s1)
  then show ?case using newton_body_ctl by blast
qed simp_all

text \<open>The four places where a pass through the body of the while loop can end.\<close>

lemma integrate_body_cases [consumes 1, case_names lu checks newton after]:
  assumes "integrate_body env t_end pr s = (c, s')"
  obtains
    (lu) "step_lu env pr s = (c, s')" "c \<noteq> Fallthrough"
  | (checks) s1 where "step_lu env pr s = (Fallthrough, s1)" "step_checks s1 = (c, s')"
      "c \<noteq> Fallthrough"
  | (newton) s1 s2 where "step_lu env pr s = (Fallthrough, s1)"
      "step_checks s1 = (Fallthrough, s2)"
      "newton_loop env pr (newton_start env s2) = (c, s')" "c \<noteq> Fallthrough" "c \<noteq> Break"
  | (after) s1 s2 c3 s3 where "step_lu env pr s = (Fallthrough, s1)"
      "step_checks s1 = (Fallthrough, s2)"
      "newton_loop env pr (newton_start env s2) = (c3, s3)" "c3 = Fallthrough \<or> c3 = Break"
      "step_after_newton env t_end pr s3 = (c, s')"
proof -
  obtain c1 s1 where 1: "step_lu env pr s = (c1, s1)"
    by (cases "step_lu env pr s")
  obtain c2 s2 where 2: "step_checks s1 = (c2, s2)"
    by (cases "step_checks s1")
  obtain c3 s3 where 3: "newton_loop env pr (newton_start env s2) = (c3, s3)"
    by (cases "newton_loop env pr (newton_start env s2)")
  show thesis
  proof (cases "c1 = Fallthrough")
    case False
    with assms 1 have "(c, s') = (c1, s1)"
      by (cases c1) (simp_all add: integrate_body_def)
    with 1 False lu show ?thesis by simp
  next
    case c1: True
    show ?thesis
    proof (cases "c2 = Fallthrough")
      case False
      with assms 1 2 c1 have "(c, s') = (c2, s2)"
        by (cases c2) (simp_all add: integrate_body_def)
      with 1 2 c1 False checks show ?thesis by simp
    next
      case c2: True
      show ?thesis
      proof (cases "c3 = Fallthrough \<or> c3 = Break")
        case False
        with assms 1 2 3 c1 c2 have "(c, s') = (c3, s3)"
          by (cases c3) (simp_all add: integrate_body_def)
        with 1 2 3 c1 c2 False newton show ?thesis by simp
      next
        case True
        with assms 1 2 3 c1 c2 have "step_after_newton env t_end pr s3 = (c, s')"
          by (auto simp: integrate_body_def)
        with 1 2 3 c1 c2 True after show ?thesis by simp
      qed
    qed
  qed
qed

lemma integrate_body_measure:
  assumes "integrate_body env t_end pr s = (c, s')" "c = Fallthrough \<or> c = Continue"
  shows "(Nsteps s' = Nsteps s + 1 \<and> Nsteps s' < Max_no_steps)
       \<or> (Nsteps s' = Nsteps s \<and> Nconsecutive s' = Nconsecutive s + 1 \<and> Nconsecutive s' < 5)"
  using assms(1)
proof (cases rule: integrate_body_cases)
  case lu
  with assms(2) have "step_lu env pr s = (Continue, s')" by auto
  from step_lu_Continue[OF this] show ?thesis by simp
next
  case (checks s1)
  with assms(2) show ?thesis using step_checks_ctl by auto
next
  case (newton s1 s2)
  from newton_loop_counters[OF newton(3)] newton_start_counters[of env s2]
    step_checks_Fallthrough[OF newton(2)] step_lu_Fallthrough[OF newton(1)]
  show ?thesis by (auto simp: counters_def)
next
  case (after s1 s2 c3 s3)
  from newton_loop_counters[OF after(3)] newton_start_counters[of env s2]
    step_checks_Fallthrough[OF after(2)] step_lu_Fallthrough[OF after(1)]
    step_after_newton_counters[OF after(5)]
  show ?thesis by (auto simp: counters_def)
qed

termination integrate_loop
proof (relation "measures [\<lambda>(env, t_end, pr, s). nat (Max_no_steps - Nsteps s),
                           \<lambda>(env, t_end, pr, s). nat (5 - Nconsecutive s)]")
  show "wf (measures [\<lambda>(env, t_end, pr, s). nat (Max_no_steps - Nsteps s),
                      \<lambda>(env, t_end, pr, s). nat (5 - Nconsecutive s)])"
    by simp
next
  fix env t_end pr s x1 x2
  assume "t s + Roundoff < t_end" "(x1, x2) = integrate_body env t_end pr s" "x1 = Fallthrough"
  then show "((env, t_end, pr, x2), env, t_end, pr, s)
               \<in> measures [\<lambda>(env, t_end, pr, s). nat (Max_no_steps - Nsteps s),
                            \<lambda>(env, t_end, pr, s). nat (5 - Nconsecutive s)]"
    using integrate_body_measure[of env t_end pr s x1 x2] by auto
next
  fix env t_end pr s x1 x2
  assume "t s + Roundoff < t_end" "(x1, x2) = integrate_body env t_end pr s" "x1 = Continue"
  then show "((env, t_end, pr, x2), env, t_end, pr, s)
               \<in> measures [\<lambda>(env, t_end, pr, s). nat (Max_no_steps - Nsteps s),
                            \<lambda>(env, t_end, pr, s). nat (5 - Nconsecutive s)]"
    using integrate_body_measure[of env t_end pr s x1 x2] by auto
qed

declare integrate_loop.simps [simp del]

lemma integrate_loop_done:
  "\<not> t s + Roundoff < t_end \<Longrightarrow> integrate_loop env t_end pr s = Returned (map Fin (y s))"
  by (subst integrate_loop.simps) simp

lemma integrate_loop_next:
  "t s + Roundoff < t_end \<Longrightarrow> integrate_body env t_end pr s = (c, s') \<Longrightarrow>
   c = Fallthrough \<or> c = Continue \<Longrightarrow>
   integrate_loop env t_end pr s = integrate_loop env t_end pr s'"
  by (subst integrate_loop.simps) auto

lemma integrate_loop_Return:
  "t s + Roundoff < t_end \<Longrightarrow> integrate_body env t_end pr s = (Return ys, s') \<Longrightarrow>
   integrate_loop env t_end pr s = Returned ys"
  by (subst integrate_loop.simps) simp

lemma integrate_loop_Exit:
  "t s + Roundoff < t_end \<Longrightarrow> integrate_body env t_end pr s = (Exit e, s') \<Longrightarrow>
   integrate_loop env t_end pr s = Exited e"
  by (subst integrate_loop.simps) simp

section \<open>RK\_ErrorNorm\<close>

lemma upt_9: "[0..<9] = [0, Suc 0, 2, 3, 4, 5, 6, 7, 8]"
  by (simp add: upt_rec)

lemma replicate_8: "replicate 8 x = [x, x, x, x, x, x, x, x]"
  by (simp add: numeral_eq_Suc)

lemma add_sums_eq:
  "add_sums [a0, a1, a2, a3, a4, a5, a6, a7] past = a0 + a1 + a2 + a3 + a4 + a5 + a6 + a7 + past"
  by (simp add: add_sums_def add_sums_indices_def upt_9 sums_read_def UNROLL_def)

lemma partial_sums_1: "partial_sums 1 [a] [b] = [a * a * b * b, 0, 0, 0, 0, 0, 0, 0]"
  by (simp add: partial_sums_def mod_part_def UNROLL_def unrolled_summer.simps [of "Suc 0"]
        replicate_8)

text \<open>
  Claim C9 says that the last loop of \<^verbatim>\<open>RK_ErrorNorm\<close> reads only \<^verbatim>\<open>sums[0..UNROLL-1]\<close>. The
  loop runs while \<^verbatim>\<open>i <= UNROLL\<close>: its indices are 0 to \<open>UNROLL\<close>, the index \<open>UNROLL\<close> is
  not inside the array, what is read there is the word behind the array, and the sum that
  the function takes the root of is the sum of the eight partial sums plus that word.
\<close>

theorem RK_ErrorNorm_reads_behind_sums:
  "add_sums_indices = [0, 1, 2, 3, 4, 5, 6, 7, UNROLL] \<and> \<not> sums_in_bounds UNROLL
   \<and> sums_read sms past UNROLL = past
   \<and> add_sums sms past = (\<Sum>i<UNROLL. sms ! i) + past"
  by (simp add: add_sums_def add_sums_indices_def upt_9 sums_read_def sums_in_bounds_def UNROLL_def
       lessThan_nat_numeral lessThan_Suc)

text \<open>
  Claim C5 says that \<^verbatim>\<open>RK_ErrorNorm(sc, v)\<close> is exactly \<open>max(1e-10, sqrt(mean (sc[i] v[i])^2))\<close>.
  For \<open>NN = 1\<close>, \<open>sc = [1]\<close>, \<open>v = [0]\<close> and a 1.0 behind \<^verbatim>\<open>sums\<close> the function returns 1,
  where the norm of the specification is \<open>1e-10\<close>.
\<close>

theorem RK_ErrorNorm_adds_the_word_behind_sums:
  "RK_ErrorNorm garbage_env [1] [0] = 1 \<and> spec_ErrorNorm garbage_env [1] [0] = 1 / 10 ^ 10"
  using partial_sums_1[of 1 0]
  by (simp add: RK_ErrorNorm_def spec_ErrorNorm_def garbage_env_def impulse_env_def add_sums_eq)

section \<open>RK\_Interpolate\<close>

text \<open>
  Claim C6 says that every stage \<open>i\<close> of the warm start is \<open>CONT[j] + x_i * (CONT[N+j] +
  x_i * CONT[2N+j])\<close>. For \<open>NN = 1\<close>, \<open>H = Hold = 1\<close> and \<open>CONT = [0, 1, 0]\<close> the third stage
  of the source is \<open>x2 = 1 + rkC[1]\<close>, the value of the second stage, where the
  specification gives \<open>x3 = 2\<close>.
\<close>

theorem RK_Interpolate_third_stage_mixes_abscissae:
  "RK_Interpolate impulse_env 1 1 [0, 1, 0]
     = ([1.1550510257216821901802715925294109], [1.6449489742783178098197284074705891],
        [1.6449489742783178098197284074705891])
   \<and> spec_Interpolate impulse_env 1 1 [0, 1, 0]
     = ([1.1550510257216821901802715925294109], [1.6449489742783178098197284074705891], [2])"
  by (simp add: RK_Interpolate_def spec_Interpolate_def impulse_env_def rkC_def Let_def)

section \<open>The state in which the loop starts\<close>

text \<open>
  Claim C8, as amended: for every call \<^verbatim>\<open>integrate(t_start, t_end, pr, y)\<close> the loop starts
  from \<open>t = t_start\<close> with the step size \<open>H = 5e-7\<close>, a constant of \<^verbatim>\<open>integrate\<close> (which takes
  no options), and with \<open>FirstStep\<close> true and \<open>Reject\<close>, \<open>SkipJac\<close>, \<open>SkipLU\<close> false.
\<close>

theorem integrate_initial_state:
  "integrate env t_start t_end pr y_in = integrate_loop env t_end pr (integrate_init env t_start y_in)
   \<and> t (integrate_init env t_start y_in) = t_start
   \<and> H (integrate_init env t_start y_in) = 5 / 10 ^ 7
   \<and> FirstStep (integrate_init env t_start y_in)
   \<and> \<not> Reject (integrate_init env t_start y_in)
   \<and> \<not> SkipJac (integrate_init env t_start y_in)
   \<and> \<not> SkipLU (integrate_init env t_start y_in)"
  by (simp add: integrate_def integrate_init_def)

text \<open>
  Claim C8 as the specification states it fails: the initial step size is not the option
  \<open>h_init\<close>, whose default is \<open>1e-6\<close>.
\<close>

theorem initial_step_is_not_h_init:
  "H (integrate_init impulse_env 0 [0]) \<noteq> h_init SolverOptions_default"
  by (simp add: integrate_init_def SolverOptions_default_def SolverOptions_new_def)

section \<open>What each block of the loop body changes\<close>

lemma classic_factor_unchanged [simp]:
  "Hmin (classic_factor s) = Hmin s \<and> Hold (classic_factor s) = Hold s \<and> Hacc (classic_factor s) = Hacc s
   \<and> ErrOld (classic_factor s) = ErrOld s \<and> H (classic_factor s) = H s \<and> t (classic_factor s) = t s
   \<and> Reject (classic_factor s) = Reject s \<and> FirstStep (classic_factor s) = FirstStep s \<and> SkipJac (classic_factor s) = SkipJac s
   \<and> SkipLU (classic_factor s) = SkipLU s \<and> sc (classic_factor s) = sc s \<and> A (classic_factor s) = A s
   \<and> E1 (classic_factor s) = E1 s \<and> E2 (classic_factor s) = E2 s \<and> ipiv1 (classic_factor s) = ipiv1 s
   \<and> ipiv2 (classic_factor s) = ipiv2 s \<and> Z1 (classic_factor s) = Z1 s \<and> Z2 (classic_factor s) = Z2 s
   \<and> Z3 (classic_factor s) = Z3 s \<and> DZ1 (classic_factor s) = DZ1 s \<and> DZ2 (classic_factor s) = DZ2 s
   \<and> DZ3 (classic_factor s) = DZ3 s \<and> CONT (classic_factor s) = CONT s \<and> y (classic_factor s) = y s
   \<and> y0 (classic_factor s) = y0 s \<and> F0 (classic_factor s) = F0 s \<and> info (classic_factor s) = info s
   \<and> Nconsecutive (classic_factor s) = Nconsecutive s \<and> Nsteps (classic_factor s) = Nsteps s \<and> NewtonRate (classic_factor s) = NewtonRate s
   \<and> NewtonDone (classic_factor s) = NewtonDone s \<and> NewtonIncrementOld (classic_factor s) = NewtonIncrementOld s \<and> NewtonIter (classic_factor s) = NewtonIter s
   \<and> Theta (classic_factor s) = Theta s \<and> NewtonIncrement (classic_factor s) = NewtonIncrement s \<and> Err (classic_factor s) = Err s"
  by (simp add: classic_factor_def Let_def)

lemma gustafsson_unchanged [simp]:
  "Hmin (gustafsson s) = Hmin s \<and> Hold (gustafsson s) = Hold s \<and> Hacc (gustafsson s) = Hacc s
   \<and> ErrOld (gustafsson s) = ErrOld s \<and> H (gustafsson s) = H s \<and> t (gustafsson s) = t s
   \<and> Reject (gustafsson s) = Reject s \<and> FirstStep (gustafsson s) = FirstStep s \<and> SkipJac (gustafsson s) = SkipJac s
   \<and> SkipLU (gustafsson s) = SkipLU s \<and> sc (gustafsson s) = sc s \<and> A (gustafsson s) = A s
   \<and> E1 (gustafsson s) = E1 s \<and> E2 (gustafsson s) = E2 s \<and> ipiv1 (gustafsson s) = ipiv1 s
   \<and> ipiv2 (gustafsson s) = ipiv2 s \<and> Z1 (gustafsson s) = Z1 s \<and> Z2 (gustafsson s) = Z2 s
   \<and> Z3 (gustafsson s) = Z3 s \<and> DZ1 (gustafsson s) = DZ1 s \<and> DZ2 (gustafsson s) = DZ2 s
   \<and> DZ3 (gustafsson s) = DZ3 s \<and> CONT (gustafsson s) = CONT s \<and> y (gustafsson s) = y s
   \<and> y0 (gustafsson s) = y0 s \<and> F0 (gustafsson s) = F0 s \<and> info (gustafsson s) = info s
   \<and> Nconsecutive (gustafsson s) = Nconsecutive s \<and> Nsteps (gustafsson s) = Nsteps s \<and> NewtonRate (gustafsson s) = NewtonRate s
   \<and> NewtonDone (gustafsson s) = NewtonDone s \<and> NewtonIncrementOld (gustafsson s) = NewtonIncrementOld s \<and> NewtonIter (gustafsson s) = NewtonIter s
   \<and> Theta (gustafsson s) = Theta s \<and> NewtonIncrement (gustafsson s) = NewtonIncrement s \<and> Err (gustafsson s) = Err s"
  by (simp add: gustafsson_def Let_def)

lemma commit_step_unchanged [simp]:
  "Hmin (commit_step env s) = Hmin s \<and> H (commit_step env s) = H s \<and> Hnew (commit_step env s) = Hnew s
   \<and> Reject (commit_step env s) = Reject s \<and> SkipJac (commit_step env s) = SkipJac s \<and> SkipLU (commit_step env s) = SkipLU s
   \<and> A (commit_step env s) = A s \<and> E1 (commit_step env s) = E1 s \<and> E2 (commit_step env s) = E2 s
   \<and> ipiv1 (commit_step env s) = ipiv1 s \<and> ipiv2 (commit_step env s) = ipiv2 s \<and> Z1 (commit_step env s) = Z1 s
   \<and> Z2 (commit_step env s) = Z2 s \<and> Z3 (commit_step env s) = Z3 s \<and> DZ1 (commit_step env s) = DZ1 s
   \<and> DZ2 (commit_step env s) = DZ2 s \<and> DZ3 (commit_step env s) = DZ3 s \<and> F0 (commit_step env s) = F0 s
   \<and> info (commit_step env s) = info s \<and> Nconsecutive (commit_step env s) = Nconsecutive s \<and> Nsteps (commit_step env s) = Nsteps s
   \<and> NewtonRate (commit_step env s) = NewtonRate s \<and> NewtonDone (commit_step env s) = NewtonDone s \<and> NewtonIncrementOld (commit_step env s) = NewtonIncrementOld s
   \<and> Fac (commit_step env s) = Fac s \<and> NewtonIter (commit_step env s) = NewtonIter s \<and> Theta (commit_step env s) = Theta s
   \<and> NewtonIncrement (commit_step env s) = NewtonIncrement s \<and> Err (commit_step env s) = Err s"
  by (simp add: commit_step_def Let_def)

lemma clamp_Hnew_unchanged [simp]:
  "Hmin (clamp_Hnew t_end s) = Hmin s \<and> Hold (clamp_Hnew t_end s) = Hold s \<and> Hacc (clamp_Hnew t_end s) = Hacc s
   \<and> ErrOld (clamp_Hnew t_end s) = ErrOld s \<and> H (clamp_Hnew t_end s) = H s \<and> t (clamp_Hnew t_end s) = t s
   \<and> FirstStep (clamp_Hnew t_end s) = FirstStep s \<and> SkipJac (clamp_Hnew t_end s) = SkipJac s \<and> SkipLU (clamp_Hnew t_end s) = SkipLU s
   \<and> sc (clamp_Hnew t_end s) = sc s \<and> A (clamp_Hnew t_end s) = A s \<and> E1 (clamp_Hnew t_end s) = E1 s
   \<and> E2 (clamp_Hnew t_end s) = E2 s \<and> ipiv1 (clamp_Hnew t_end s) = ipiv1 s \<and> ipiv2 (clamp_Hnew t_end s) = ipiv2 s
   \<and> Z1 (clamp_Hnew t_end s) = Z1 s \<and> Z2 (clamp_Hnew t_end s) = Z2 s \<and> Z3 (clamp_Hnew t_end s) = Z3 s
   \<and> DZ1 (clamp_Hnew t_end s) = DZ1 s \<and> DZ2 (clamp_Hnew t_end s) = DZ2 s \<and> DZ3 (clamp_Hnew t_end s) = DZ3 s
   \<and> CONT (clamp_Hnew t_end s) = CONT s \<and> y (clamp_Hnew t_end s) = y s \<and> y0 (clamp_Hnew t_end s) = y0 s
   \<and> F0 (clamp_Hnew t_end s) = F0 s \<and> info (clamp_Hnew t_end s) = info s \<and> Nconsecutive (clamp_Hnew t_end s) = Nconsecutive s
   \<and> Nsteps (clamp_Hnew t_end s) = Nsteps s \<and> NewtonRate (clamp_Hnew t_end s) = NewtonRate s \<and> NewtonDone (clamp_Hnew t_end s) = NewtonDone s
   \<and> NewtonIncrementOld (clamp_Hnew t_end s) = NewtonIncrementOld s \<and> Fac (clamp_Hnew t_end s) = Fac s \<and> NewtonIter (clamp_Hnew t_end s) = NewtonIter s
   \<and> Theta (clamp_Hnew t_end s) = Theta s \<and> NewtonIncrement (clamp_Hnew t_end s) = NewtonIncrement s \<and> Err (clamp_Hnew t_end s) = Err s"
  by (simp add: clamp_Hnew_def Let_def)

lemma decide_reuse_unchanged [simp]:
  "Hmin (decide_reuse t_end s) = Hmin s \<and> Hold (decide_reuse t_end s) = Hold s \<and> Hacc (decide_reuse t_end s) = Hacc s
   \<and> ErrOld (decide_reuse t_end s) = ErrOld s \<and> Hnew (decide_reuse t_end s) = Hnew s \<and> t (decide_reuse t_end s) = t s
   \<and> Reject (decide_reuse t_end s) = Reject s \<and> FirstStep (decide_reuse t_end s) = FirstStep s \<and> SkipJac (decide_reuse t_end s) = SkipJac s
   \<and> sc (decide_reuse t_end s) = sc s \<and> A (decide_reuse t_end s) = A s \<and> E1 (decide_reuse t_end s) = E1 s
   \<and> E2 (decide_reuse t_end s) = E2 s \<and> ipiv1 (decide_reuse t_end s) = ipiv1 s \<and> ipiv2 (decide_reuse t_end s) = ipiv2 s
   \<and> Z1 (decide_reuse t_end s) = Z1 s \<and> Z2 (decide_reuse t_end s) = Z2 s \<and> Z3 (decide_reuse t_end s) = Z3 s
   \<and> DZ1 (decide_reuse t_end s) = DZ1 s \<and> DZ2 (decide_reuse t_end s) = DZ2 s \<and> DZ3 (decide_reuse t_end s) = DZ3 s
   \<and> CONT (decide_reuse t_end s) = CONT s \<and> y (decide_reuse t_end s) = y s \<and> y0 (decide_reuse t_end s) = y0 s
   \<and> F0 (decide_reuse t_end s) = F0 s \<and> info (decide_reuse t_end s) = info s \<and> Nconsecutive (decide_reuse t_end s) = Nconsecutive s
   \<and> Nsteps (decide_reuse t_end s) = Nsteps s \<and> NewtonRate (decide_reuse t_end s) = NewtonRate s \<and> NewtonDone (decide_reuse t_end s) = NewtonDone s
   \<and> NewtonIncrementOld (decide_reuse t_end s) = NewtonIncrementOld s \<and> Fac (decide_reuse t_end s) = Fac s \<and> NewtonIter (decide_reuse t_end s) = NewtonIter s
   \<and> Theta (decide_reuse t_end s) = Theta s \<and> NewtonIncrement (decide_reuse t_end s) = NewtonIncrement s \<and> Err (decide_reuse t_end s) = Err s"
  by (simp add: decide_reuse_def Let_def)

lemma next_step_size_unchanged [simp]:
  "Hmin (next_step_size t_end s) = Hmin s \<and> Hold (next_step_size t_end s) = Hold s \<and> Hacc (next_step_size t_end s) = Hacc s
   \<and> ErrOld (next_step_size t_end s) = ErrOld s \<and> t (next_step_size t_end s) = t s \<and> FirstStep (next_step_size t_end s) = FirstStep s
   \<and> sc (next_step_size t_end s) = sc s \<and> A (next_step_size t_end s) = A s \<and> E1 (next_step_size t_end s) = E1 s
   \<and> E2 (next_step_size t_end s) = E2 s \<and> ipiv1 (next_step_size t_end s) = ipiv1 s \<and> ipiv2 (next_step_size t_end s) = ipiv2 s
   \<and> Z1 (next_step_size t_end s) = Z1 s \<and> Z2 (next_step_size t_end s) = Z2 s \<and> Z3 (next_step_size t_end s) = Z3 s
   \<and> DZ1 (next_step_size t_end s) = DZ1 s \<and> DZ2 (next_step_size t_end s) = DZ2 s \<and> DZ3 (next_step_size t_end s) = DZ3 s
   \<and> CONT (next_step_size t_end s) = CONT s \<and> y (next_step_size t_end s) = y s \<and> y0 (next_step_size t_end s) = y0 s
   \<and> F0 (next_step_size t_end s) = F0 s \<and> info (next_step_size t_end s) = info s \<and> Nconsecutive (next_step_size t_end s) = Nconsecutive s
   \<and> Nsteps (next_step_size t_end s) = Nsteps s \<and> NewtonRate (next_step_size t_end s) = NewtonRate s \<and> NewtonDone (next_step_size t_end s) = NewtonDone s
   \<and> NewtonIncrementOld (next_step_size t_end s) = NewtonIncrementOld s \<and> Fac (next_step_size t_end s) = Fac s \<and> NewtonIter (next_step_size t_end s) = NewtonIter s
   \<and> Theta (next_step_size t_end s) = Theta s \<and> NewtonIncrement (next_step_size t_end s) = NewtonIncrement s \<and> Err (next_step_size t_end s) = Err s"
  by (simp add: next_step_size_def Let_def)

lemma reject_step_unchanged [simp]:
  "Hmin (reject_step s) = Hmin s \<and> Hold (reject_step s) = Hold s \<and> Hacc (reject_step s) = Hacc s
   \<and> ErrOld (reject_step s) = ErrOld s \<and> Hnew (reject_step s) = Hnew s \<and> t (reject_step s) = t s
   \<and> FirstStep (reject_step s) = FirstStep s \<and> sc (reject_step s) = sc s \<and> A (reject_step s) = A s
   \<and> E1 (reject_step s) = E1 s \<and> E2 (reject_step s) = E2 s \<and> ipiv1 (reject_step s) = ipiv1 s
   \<and> ipiv2 (reject_step s) = ipiv2 s \<and> Z1 (reject_step s) = Z1 s \<and> Z2 (reject_step s) = Z2 s
   \<and> Z3 (reject_step s) = Z3 s \<and> DZ1 (reject_step s) = DZ1 s \<and> DZ2 (reject_step s) = DZ2 s
   \<and> DZ3 (reject_step s) = DZ3 s \<and> CONT (reject_step s) = CONT s \<and> y (reject_step s) = y s
   \<and> y0 (reject_step s) = y0 s \<and> F0 (reject_step s) = F0 s \<and> info (reject_step s) = info s
   \<and> Nconsecutive (reject_step s) = Nconsecutive s \<and> Nsteps (reject_step s) = Nsteps s \<and> NewtonRate (reject_step s) = NewtonRate s
   \<and> NewtonDone (reject_step s) = NewtonDone s \<and> NewtonIncrementOld (reject_step s) = NewtonIncrementOld s \<and> Fac (reject_step s) = Fac s
   \<and> NewtonIter (reject_step s) = NewtonIter s \<and> Theta (reject_step s) = Theta s \<and> NewtonIncrement (reject_step s) = NewtonIncrement s
   \<and> Err (reject_step s) = Err s"
  by (simp add: reject_step_def Let_def)

lemma newton_start_unchanged [simp]:
  "Hmin (newton_start env s) = Hmin s \<and> Hold (newton_start env s) = Hold s \<and> Hacc (newton_start env s) = Hacc s
   \<and> ErrOld (newton_start env s) = ErrOld s \<and> H (newton_start env s) = H s \<and> Hnew (newton_start env s) = Hnew s
   \<and> t (newton_start env s) = t s \<and> Reject (newton_start env s) = Reject s \<and> FirstStep (newton_start env s) = FirstStep s
   \<and> SkipJac (newton_start env s) = SkipJac s \<and> SkipLU (newton_start env s) = SkipLU s \<and> sc (newton_start env s) = sc s
   \<and> A (newton_start env s) = A s \<and> E1 (newton_start env s) = E1 s \<and> E2 (newton_start env s) = E2 s
   \<and> ipiv1 (newton_start env s) = ipiv1 s \<and> ipiv2 (newton_start env s) = ipiv2 s \<and> DZ1 (newton_start env s) = DZ1 s
   \<and> DZ2 (newton_start env s) = DZ2 s \<and> DZ3 (newton_start env s) = DZ3 s \<and> CONT (newton_start env s) = CONT s
   \<and> y (newton_start env s) = y s \<and> y0 (newton_start env s) = y0 s \<and> F0 (newton_start env s) = F0 s
   \<and> info (newton_start env s) = info s \<and> Nconsecutive (newton_start env s) = Nconsecutive s \<and> Nsteps (newton_start env s) = Nsteps s
   \<and> NewtonIncrement (newton_start env s) = NewtonIncrement s \<and> Err (newton_start env s) = Err s"
  by (simp add: newton_start_def Let_def split: prod.splits)

lemma classic_factor_bounds:
  "FacMin \<le> Fac (classic_factor s) \<and> Fac (classic_factor s) \<le> FacMax
   \<and> Hnew (classic_factor s) = Fac (classic_factor s) * H s"
  by (simp add: classic_factor_def Let_def FacMin_def FacMax_def)

lemma gustafsson_bounds:
  "FacMin \<le> Fac s \<Longrightarrow> Hnew s = Fac s * H s \<Longrightarrow>
   FacMin \<le> Fac (gustafsson s) \<and> Hnew (gustafsson s) = Fac (gustafsson s) * H s"
  by (auto simp: gustafsson_def Let_def FacMin_def FacMax_def min_def max_def)

lemma commit_step_changed:
  "Hacc (commit_step env s) = H s \<and> ErrOld (commit_step env s) = max 0.01 (Err s)
   \<and> \<not> FirstStep (commit_step env s) \<and> Hold (commit_step env s) = H s
   \<and> t (commit_step env s) = t s + H s
   \<and> y (commit_step env s) = map (\<lambda>i. y s ! i + Z3 s ! i) [0..<NN env]
   \<and> CONT (commit_step env s) = RK_Make_Interpolate env (Z1 s) (Z2 s) (Z3 s)
   \<and> sc (commit_step env s) = scale env (y (commit_step env s)) (y0 s)
   \<and> y0 (commit_step env s) = map (\<lambda>i. y (commit_step env s) ! i) [0..<NN env]"
  by (simp add: commit_step_def Let_def StartNewton_def)

lemma clamp_Hnew_changed:
  "\<not> Reject (clamp_Hnew t_end s)
   \<and> Hnew (clamp_Hnew t_end s) =
       (if Reject s then min (min (max (Hnew s) (Hmin s)) (t_end - t s)) (H s)
        else min (max (Hnew s) (Hmin s)) (t_end - t s))"
  by (simp add: clamp_Hnew_def Let_def)

lemma decide_reuse_last:
  "t s + Hnew s / Qmin - t_end \<ge> 0 \<Longrightarrow> decide_reuse t_end s = s\<lparr>H := t_end - t s\<rparr>"
  by (simp add: decide_reuse_def)

lemma decide_reuse_not_last:
  "\<not> t s + Hnew s / Qmin - t_end \<ge> 0 \<Longrightarrow>
   decide_reuse t_end s =
     (if Theta s \<le> ThetaMin \<and> Hnew s / H s \<ge> Qmin \<and> Hnew s / H s \<le> Qmax
      then s\<lparr>SkipLU := True\<rparr> else s\<lparr>SkipLU := False, H := Hnew s\<rparr>)"
  by (simp add: decide_reuse_def Let_def)

lemma next_step_size_changed:
  "\<not> Reject (next_step_size t_end s)
   \<and> Hnew (next_step_size t_end s) = Hnew (clamp_Hnew t_end s)
   \<and> H (next_step_size t_end s) = H (decide_reuse t_end (clamp_Hnew t_end s))
   \<and> SkipLU (next_step_size t_end s) = SkipLU (decide_reuse t_end (clamp_Hnew t_end s))
   \<and> SkipJac (next_step_size t_end s) = (NewtonIter s = 1 \<or> NewtonRate s \<le> ThetaMin)"
  by (simp add: next_step_size_def Let_def clamp_Hnew_changed)

lemma reject_step_changed:
  "Reject (reject_step s) \<and> SkipJac (reject_step s) \<and> \<not> SkipLU (reject_step s)
   \<and> H (reject_step s) = (if FirstStep s \<or> Reject s then FacRej * H s else Hnew s)"
  by (simp add: reject_step_def Let_def)

lemma step_control_accept:
  "Err s < 1 \<Longrightarrow>
   step_control env t_end s = next_step_size t_end (commit_step env (gustafsson (classic_factor s)))"
  by (simp add: step_control_def Let_def)

lemma step_control_reject:
  "\<not> Err s < 1 \<Longrightarrow> step_control env t_end s = reject_step (classic_factor s)"
  by (simp add: step_control_def Let_def)

lemma step_control_Err [simp]: "Err (step_control env t_end s) = Err s"
  by (cases "Err s < 1") (simp_all add: step_control_accept step_control_reject)

lemma step_control_Reject: "Reject (step_control env t_end s) = (\<not> Err s < 1)"
  by (cases "Err s < 1")
     (simp_all add: step_control_accept step_control_reject next_step_size_changed
        reject_step_changed)

lemma step_after_newton_Fallthrough:
  assumes "step_after_newton env t_end pr s = (Fallthrough, s')"
  obtains e where "NewtonDone s"
    and "RK_ErrorEstimate env (H s) (t s) pr (y s) (F0 s) (Z1 s) (Z2 s) (Z3 s) (sc s) (E1 s)
           (ipiv1 s) (FirstStep s) (Reject s) = Inr e"
    and "s' = step_control env t_end (s\<lparr>Err := e\<rparr>)"
    and "Err s' = e"
  using assms by (auto simp: step_after_newton_def split: if_splits sum.splits)

lemma step_after_newton_Continue:
  "step_after_newton env t_end pr s = (Continue, s') \<Longrightarrow>
   \<not> NewtonDone s
   \<and> s' = s\<lparr>H := Fac s * H s, Reject := True, SkipJac := True, SkipLU := False\<rparr>"
  by (auto simp: step_after_newton_def split: if_splits sum.splits)

lemma step_lu_unchanged:
  "step_lu env pr s = (c, s') \<Longrightarrow>
   Hmin s' = Hmin s \<and> Hold s' = Hold s \<and> Hacc s' = Hacc s \<and> ErrOld s' = ErrOld s
   \<and> Hnew s' = Hnew s \<and> t s' = t s \<and> FirstStep s' = FirstStep s \<and> sc s' = sc s
   \<and> CONT s' = CONT s \<and> y s' = y s \<and> y0 s' = y0 s \<and> Nsteps s' = Nsteps s
   \<and> NewtonRate s' = NewtonRate s \<and> Err s' = Err s"
  by (auto simp: step_lu_def Let_def split: if_splits prod.splits)

lemma step_lu_Fallthrough_unchanged:
  "step_lu env pr s = (Fallthrough, s') \<Longrightarrow>
   H s' = H s \<and> Reject s' = Reject s \<and> SkipJac s' = SkipJac s \<and> SkipLU s' = SkipLU s"
  by (auto simp: step_lu_def Let_def split: if_splits prod.splits)

lemma step_lu_Return:
  "step_lu env pr s = (Return ys, s') \<Longrightarrow>
   ys = (map Fin (y s))[0 := NaN] \<and> \<not> SkipLU s \<and> info s' \<noteq> 0
   \<and> Nconsecutive s' = Nconsecutive s + 1 \<and> 5 \<le> Nconsecutive s'"
  by (auto simp: step_lu_def Let_def split: if_splits prod.splits)

lemma newton_outer_fields:
  "outer s' = outer s \<Longrightarrow>
   H s' = H s \<and> t s' = t s \<and> y s' = y s \<and> y0 s' = y0 s \<and> sc s' = sc s
   \<and> Reject s' = Reject s \<and> FirstStep s' = FirstStep s \<and> SkipLU s' = SkipLU s
   \<and> SkipJac s' = SkipJac s \<and> Hold s' = Hold s \<and> Hacc s' = Hacc s \<and> ErrOld s' = ErrOld s
   \<and> E1 s' = E1 s \<and> E2 s' = E2 s \<and> ipiv1 s' = ipiv1 s \<and> ipiv2 s' = ipiv2 s \<and> A s' = A s
   \<and> F0 s' = F0 s \<and> CONT s' = CONT s \<and> Hmin s' = Hmin s \<and> Nsteps s' = Nsteps s
   \<and> Nconsecutive s' = Nconsecutive s \<and> info s' = info s"
  by (simp add: outer_def)

text \<open>
  A pass that reaches the Newton loop starts it in a state that agrees with the state at
  the head of the pass on time, step size and solution.
\<close>

lemma before_newton:
  assumes "step_lu env pr s = (Fallthrough, s1)" "step_checks s1 = (Fallthrough, s2)"
    "newton_loop env pr (newton_start env s2) = (c3, s3)"
  shows "H s3 = H s \<and> t s3 = t s \<and> y s3 = y s \<and> y0 s3 = y0 s \<and> sc s3 = sc s
         \<and> Reject s3 = Reject s \<and> FirstStep s3 = FirstStep s \<and> SkipLU s3 = SkipLU s
         \<and> Hold s3 = Hold s"
    and "newton_result env pr s = s3"
proof -
  from step_checks_Fallthrough[OF assms(2)] have s2: "s2 = s1\<lparr>Nsteps := Nsteps s1 + 1\<rparr>"
    by simp
  from newton_outer_fields[OF newton_loop_outer[OF assms(3)]]
    step_lu_unchanged[OF assms(1)] step_lu_Fallthrough_unchanged[OF assms(1)] s2
  show "H s3 = H s \<and> t s3 = t s \<and> y s3 = y s \<and> y0 s3 = y0 s \<and> sc s3 = sc s
         \<and> Reject s3 = Reject s \<and> FirstStep s3 = FirstStep s \<and> SkipLU s3 = SkipLU s
         \<and> Hold s3 = Hold s"
    by simp
  show "newton_result env pr s = s3"
    using assms by (simp add: newton_result_def)
qed

section \<open>Accepted steps\<close>

text \<open>
  A pass through the loop body that runs to its end has computed the error estimate; it
  has accepted the step when the estimate \<open>Err\<close> is below 1, and rejected it otherwise.
\<close>

lemma integrate_body_Fallthrough:
  assumes "integrate_body env t_end pr s = (Fallthrough, s')"
  obtains s1 s2 c3 s3 where "step_lu env pr s = (Fallthrough, s1)"
    "step_checks s1 = (Fallthrough, s2)"
    "newton_loop env pr (newton_start env s2) = (c3, s3)"
    "step_after_newton env t_end pr s3 = (Fallthrough, s')"
  using assms by (cases rule: integrate_body_cases) auto

lemma accepted_iff_not_Reject:
  assumes "integrate_body env t_end pr s = (Fallthrough, s')"
  shows "Reject s' = (\<not> Err s' < 1)"
  using assms
proof (rule integrate_body_Fallthrough)
  fix s1 s2 c3 s3
  assume "step_after_newton env t_end pr s3 = (Fallthrough, s')"
  then obtain e where "s' = step_control env t_end (s3\<lparr>Err := e\<rparr>)" "Err s' = e"
    by (rule step_after_newton_Fallthrough)
  then show ?thesis by (simp add: step_control_Reject)
qed

text \<open>
  Claim C1. When a pass accepts its step (the error estimate \<open>Err\<close> that
  \<^verbatim>\<open>RK_ErrorEstimate\<close> returned is below 1), the new time is the old time plus the step size
  \<open>H\<close> with which the pass began, that step size is recorded in \<open>Hold\<close>, and every
  component of the new solution is the old one plus the third-stage increment \<open>Z3\<close> with
  which the Newton loop of this pass ended, converged (\<open>NewtonDone\<close>).
\<close>

theorem accepted_step_commits:
  assumes "integrate_body env t_end pr s = (Fallthrough, s')" and "Err s' < 1"
  shows "t s' = t s + H s \<and> Hold s' = H s
       \<and> y s' = map (\<lambda>i. y s ! i + Z3 (newton_result env pr s) ! i) [0..<NN env]
       \<and> (\<forall>i<NN env. y s' ! i = y s ! i + Z3 (newton_result env pr s) ! i)
       \<and> NewtonDone (newton_result env pr s)
       \<and> RK_ErrorEstimate env (H s) (t s) pr (y s) (F0 (newton_result env pr s))
             (Z1 (newton_result env pr s)) (Z2 (newton_result env pr s))
             (Z3 (newton_result env pr s)) (sc s) (E1 (newton_result env pr s))
             (ipiv1 (newton_result env pr s)) (FirstStep s) (Reject s) = Inr (Err s')"
  using assms(1)
proof (rule integrate_body_Fallthrough)
  fix s1 s2 c3 s3
  assume lu: "step_lu env pr s = (Fallthrough, s1)"
    and ch: "step_checks s1 = (Fallthrough, s2)"
    and nw: "newton_loop env pr (newton_start env s2) = (c3, s3)"
    and af: "step_after_newton env t_end pr s3 = (Fallthrough, s')"
  note b = before_newton[OF lu ch nw]
  from af obtain e where conv: "NewtonDone s3"
    and est: "RK_ErrorEstimate env (H s3) (t s3) pr (y s3) (F0 s3) (Z1 s3) (Z2 s3) (Z3 s3)
                (sc s3) (E1 s3) (ipiv1 s3) (FirstStep s3) (Reject s3) = Inr e"
    and s': "s' = step_control env t_end (s3\<lparr>Err := e\<rparr>)"
    and e: "Err s' = e"
    by (rule step_after_newton_Fallthrough)
  from e assms(2) have "Err (s3\<lparr>Err := e\<rparr>) < 1" by simp
  then have acc: "s' = next_step_size t_end (commit_step env
                         (gustafsson (classic_factor (s3\<lparr>Err := e\<rparr>))))"
    unfolding s' by (rule step_control_accept)
  have "t s' = t s3 + H s3" "Hold s' = H s3"
    "y s' = map (\<lambda>i. y s3 ! i + Z3 s3 ! i) [0..<NN env]"
    by (simp_all add: acc commit_step_changed)
  with b conv est e show ?thesis by simp
qed

section \<open>Passes that do not accept a step\<close>

text \<open>
  A pass that does not accept a step leaves the time, the solution, its copy \<open>y0\<close> and the
  scale vector as they are: \<open>y\<close> holds the last accepted solution at the head of every
  pass.
\<close>

lemma pass_without_accept:
  assumes "integrate_body env t_end pr s = (c, s')"
    and "c = Continue \<or> (c = Fallthrough \<and> \<not> Err s' < 1)"
  shows "t s' = t s \<and> y s' = y s \<and> y0 s' = y0 s \<and> sc s' = sc s \<and> Reject s' \<and> \<not> SkipLU s'"
  using assms(1)
proof (cases rule: integrate_body_cases)
  case lu
  with assms(2) have c: "step_lu env pr s = (Continue, s')" by auto
  then have "Reject s' \<and> \<not> SkipLU s'"
    by (auto simp: step_lu_def Let_def split: if_splits prod.splits)
  with step_lu_unchanged[OF c] show ?thesis by simp
next
  case (checks s1)
  with assms(2) show ?thesis using step_checks_ctl by auto
next
  case (newton s1 s2)
  with assms(2) newton_loop_ctl[OF newton(3)] show ?thesis by auto
next
  case (after s1 s2 c3 s3)
  note b = before_newton(1)[OF after(1,2,3)]
  from assms(2) show ?thesis
  proof
    assume "c = Continue"
    with after(5) step_after_newton_Continue[of env t_end pr s3 s'] b show ?thesis by simp
  next
    assume f: "c = Fallthrough \<and> \<not> Err s' < 1"
    with after(5) obtain e where s': "s' = step_control env t_end (s3\<lparr>Err := e\<rparr>)"
      and e: "Err s' = e"
      by (auto elim: step_after_newton_Fallthrough)
    from e f have "\<not> Err (s3\<lparr>Err := e\<rparr>) < 1" by simp
    then have "s' = reject_step (classic_factor (s3\<lparr>Err := e\<rparr>))"
      unfolding s' by (rule step_control_reject)
    with b show ?thesis by (simp add: reject_step_changed)
  qed
qed

section \<open>The scale vector\<close>

text \<open>At the head of every pass \<open>y0\<close> is a copy of the first \<open>NN\<close> components of \<open>y\<close>.\<close>

lemma reachable_y0:
  "reachable env t_start t_end pr y_in s \<Longrightarrow> \<forall>i<NN env. y0 s ! i = y s ! i"
proof (induction rule: reachable.induct)
  case reachable_init
  show ?case by (simp add: integrate_init_def)
next
  case (reachable_step s c s')
  show ?case
  proof (cases "c = Fallthrough \<and> Err s' < 1")
    case True
    then have b: "integrate_body env t_end pr s = (Fallthrough, s')"
      using reachable_step(3) by simp
    from b show ?thesis
    proof (rule integrate_body_Fallthrough)
      fix s1 s2 c3 s3
      assume "step_after_newton env t_end pr s3 = (Fallthrough, s')"
      then obtain e where s': "s' = step_control env t_end (s3\<lparr>Err := e\<rparr>)" and e: "Err s' = e"
        by (rule step_after_newton_Fallthrough)
      from e True have "Err (s3\<lparr>Err := e\<rparr>) < 1" by simp
      then have "s' = next_step_size t_end (commit_step env
                         (gustafsson (classic_factor (s3\<lparr>Err := e\<rparr>))))"
        unfolding s' by (rule step_control_accept)
      then have "y0 s' = map (\<lambda>i. y s' ! i) [0..<NN env]"
        by (simp add: commit_step_changed)
      then show ?thesis by simp
    qed
  next
    case False
    with reachable_step(4) have "c = Continue \<or> (c = Fallthrough \<and> \<not> Err s' < 1)" by auto
    from pass_without_accept[OF reachable_step(3) this] reachable_step.IH show ?thesis by simp
  qed
qed

text \<open>
  Claim C7. At initialisation the scale vector is \<open>1 / (atol + |y[i]| * rtol)\<close> of the
  initial solution. After every accepted step of a run of \<^verbatim>\<open>integrate\<close> it is
  \<open>1 / (atol + max(|y_prev[i]|, |y_new[i]|) * rtol)\<close>, where \<open>y_prev\<close> is the solution at the
  head of the pass (the previously accepted one) and \<open>y_new\<close> the one the pass commits.
\<close>

theorem scale_vector_after_accept:
  "(\<forall>i<NN env. sc (integrate_init env t_start y_in) ! i
                  = 1 / (ATOL env + \<bar>y_in ! i\<bar> * RTOL env))
   \<and> (\<forall>s s'. reachable env t_start t_end pr y_in s \<longrightarrow>
          integrate_body env t_end pr s = (Fallthrough, s') \<longrightarrow> Err s' < 1 \<longrightarrow>
          (\<forall>i<NN env. sc s' ! i
                        = 1 / (ATOL env + max \<bar>y s ! i\<bar> \<bar>y s' ! i\<bar> * RTOL env)))"
proof (intro conjI allI impI)
  fix i assume "i < NN env"
  then show "sc (integrate_init env t_start y_in) ! i = 1 / (ATOL env + \<bar>y_in ! i\<bar> * RTOL env)"
    by (simp add: integrate_init_def scale_init_def)
next
  fix s s' i
  assume r: "reachable env t_start t_end pr y_in s"
    and b: "integrate_body env t_end pr s = (Fallthrough, s')"
    and a: "Err s' < 1" and i: "i < NN env"
  from b show "sc s' ! i = 1 / (ATOL env + max \<bar>y s ! i\<bar> \<bar>y s' ! i\<bar> * RTOL env)"
  proof (rule integrate_body_Fallthrough)
    fix s1 s2 c3 s3
    assume lu: "step_lu env pr s = (Fallthrough, s1)"
      and ch: "step_checks s1 = (Fallthrough, s2)"
      and nw: "newton_loop env pr (newton_start env s2) = (c3, s3)"
      and af: "step_after_newton env t_end pr s3 = (Fallthrough, s')"
    note bn = before_newton(1)[OF lu ch nw]
    from af obtain e where s': "s' = step_control env t_end (s3\<lparr>Err := e\<rparr>)" and e: "Err s' = e"
      by (rule step_after_newton_Fallthrough)
    from e a have "Err (s3\<lparr>Err := e\<rparr>) < 1" by simp
    then have "s' = next_step_size t_end (commit_step env
                       (gustafsson (classic_factor (s3\<lparr>Err := e\<rparr>))))"
      unfolding s' by (rule step_control_accept)
    then have "sc s' = scale env (y s') (y0 s3)"
      by (simp add: commit_step_changed)
    with bn have "sc s' ! i = 1 / (ATOL env + max \<bar>y s' ! i\<bar> \<bar>y0 s ! i\<bar> * RTOL env)"
      using i by (simp add: scale_def)
    with reachable_y0[OF r] i show ?thesis by (simp add: max.commute)
  qed
qed

section \<open>Fatal failures\<close>

text \<open>
  The block of lines 561-565 is entered in the last iteration \<open>NewtonMaxit - 1\<close> when the
  convergence test of line 559 has failed. No pass through the body of the Newton loop
  gets there: in the last iteration the predicted error of line 539 is the Newton
  increment over \<open>1 - Theta\<close>, a pass that reaches line 559 has found it below \<open>NewtonTol\<close>
  with \<open>Theta < 0.99\<close>, and then \<open>NewtonRate * NewtonIncrement\<close>, which is \<open>Theta\<close> times
  the predicted error, is below \<open>NewtonTol\<close> as well.
\<close>

lemma predicted_error_bound:
  fixes n th :: real
  assumes "0 \<le> n" "th < 0.99" "\<not> n * th powr 0 / (1 - th) \<ge> NewtonTol"
  shows "th / (1 - th) * n \<le> NewtonTol"
proof (cases "th = 0")
  case True
  then show ?thesis by (simp add: NewtonTol_def)
next
  case False
  define q where "q = n / (1 - th)"
  from assms(2) have p: "0 < 1 - th" by simp
  with assms(1) have q0: "0 \<le> q" by (simp add: q_def)
  from False assms(3) have q1: "q < NewtonTol" by (simp add: q_def)
  have "th * q \<le> 0.99 * q"
    using assms(2) q0 by (intro mult_right_mono) simp_all
  also have "\<dots> \<le> q" using q0 by simp
  finally have "th * q \<le> NewtonTol" using q1 by simp
  then show ?thesis by (simp add: q_def)
qed

lemma newton_update_Return_iff:
  "(\<exists>ys s'. newton_update env s = (Return ys, s'))
     = (NewtonIter s = NewtonMaxit - 1 \<and> \<not> NewtonRate s * NewtonIncrement s \<le> NewtonTol)"
  by (auto simp: newton_update_def Let_def)

lemma newton_update_no_Return:
  "NewtonIter s \<noteq> NewtonMaxit - 1 \<or> NewtonRate s * NewtonIncrement s \<le> NewtonTol \<Longrightarrow>
   fst (newton_update env s) \<noteq> Return ys"
  by (auto simp: newton_update_def Let_def)

lemma newton_rate_never_Return:
  assumes "0 \<le> NewtonIncrement s"
  shows "fst (newton_rate env s) \<noteq> Return ys"
proof (cases "0 < NewtonIter s")
  case False
  then have "newton_rate env s = newton_update env (s\<lparr>Theta := ThetaMin\<rparr>)"
    by (simp add: newton_rate_def Let_def)
  moreover from False have "NewtonIter (s\<lparr>Theta := ThetaMin\<rparr>) \<noteq> NewtonMaxit - 1"
    by (simp add: NewtonMaxit_def)
  ultimately show ?thesis by (simp add: newton_update_no_Return)
next
  case True
  let ?th = "NewtonIncrement s / NewtonIncrementOld s"
  let ?s2 = "s\<lparr>Theta := ?th, NewtonRate := ?th / (1 - ?th)\<rparr>"
  let ?pe = "NewtonIncrement s * ?th powr real_of_int (NewtonMaxit - NewtonIter s - 1) / (1 - ?th)"
  show ?thesis
  proof (cases "?th < 0.99 \<and> \<not> (NewtonIter s < NewtonMaxit \<and> ?pe \<ge> NewtonTol)")
    case False
    with True show ?thesis by (auto simp: newton_rate_def Let_def)
  next
    case c: True
    with True have r: "newton_rate env s = newton_update env ?s2"
      by (auto simp: newton_rate_def Let_def)
    have "NewtonIter ?s2 \<noteq> NewtonMaxit - 1 \<or> NewtonRate ?s2 * NewtonIncrement ?s2 \<le> NewtonTol"
    proof (cases "NewtonIter s = NewtonMaxit - 1")
      case False
      then show ?thesis by simp
    next
      case i: True
      with c have "\<not> NewtonIncrement s * ?th powr 0 / (1 - ?th) \<ge> NewtonTol"
        by (simp add: NewtonMaxit_def)
      from predicted_error_bound[OF assms _ this] c show ?thesis by simp
    qed
    then show ?thesis unfolding r by (rule newton_update_no_Return)
  qed
qed

lemma newton_body_never_Return: "fst (newton_body env pr s) \<noteq> Return ys"
proof -
  have n: "fst (newton_rate env (s1\<lparr>NewtonIncrement := sqrt ((d1 * d1 + d2 * d2 + d3 * d3) / 3)\<rparr>))
             \<noteq> Return ys" for s1 and d1 d2 d3 :: real
    by (rule newton_rate_never_Return) simp
  show ?thesis
    using n by (auto simp: newton_body_def Let_def split: prod.splits sum.splits)
qed

lemma newton_loop_never_Return: "fst (newton_loop env pr s) \<noteq> Return ys"
proof -
  obtain c s' where run: "newton_loop env pr s = (c, s')"
    by (cases "newton_loop env pr s")
  from run have "c \<noteq> Return ys"
  proof (induction rule: newton_loop_induct)
    case (stop s)
    show ?case by simp
  next
    case (leave s c1 s1)
    with newton_body_never_Return[of env pr s ys] show ?case by simp
  next
    case (step s s1 c s')
    then show ?case by simp
  qed
  with run show ?thesis by simp
qed

lemma Return_pass_is_failed_factorisation:
  assumes "integrate_body env t_end pr s = (Return ys, s')"
  shows "step_lu env pr s = (Return ys, s')"
  using assms
proof (cases rule: integrate_body_cases)
  case lu
  then show ?thesis by simp
next
  case (checks s1)
  with step_checks_ctl show ?thesis by blast
next
  case (newton s1 s2)
  with newton_loop_never_Return[of env pr "newton_start env s2" ys] show ?thesis by simp
next
  case (after s1 s2 c3 s3)
  with step_after_newton_ctl show ?thesis by blast
qed

text \<open>
  Claim C10. The two blocks that end a call of \<^verbatim>\<open>integrate\<close> early write NaN to \<open>y[0]\<close> and
  return. The block of lines 475-488 is entered when the factorisation has failed for the
  fifth time in a row, and the block of lines 561-565 when the Newton loop is not
  converged in its last iteration \<open>NewtonMaxit - 1\<close>, and in no other state; each hands
  the caller the solution as it was, with NaN in place of \<open>y[0]\<close>. The second block is
  never reached: no pass through the body of the Newton loop ends in \<^verbatim>\<open>return\<close>. So a pass
  through the body of the while loop that ends in \<^verbatim>\<open>return\<close> is one in which the
  factorisation failed for the fifth time: what it returns is the solution at the head
  of the pass, the last accepted one, with NaN in place of \<open>y[0]\<close> and every other
  component as it was; the call of \<^verbatim>\<open>integrate\<close> then returns this vector, as it returns
  the solution after a successful run, and nothing else tells the two apart.
\<close>

theorem fatal_return_marks_y0:
  "(\<forall>s ys s'. step_lu env pr s = (Return ys, s') \<longrightarrow>
       ys = (map Fin (y s))[0 := NaN] \<and> \<not> SkipLU s \<and> info s' \<noteq> 0
       \<and> Nconsecutive s' = Nconsecutive s + 1 \<and> 5 \<le> Nconsecutive s')
   \<and> (\<forall>s ys s'. newton_update env s = (Return ys, s') \<longrightarrow>
         ys = (map Fin (y s))[0 := NaN] \<and> y s' = y s \<and> \<not> NewtonDone s'
         \<and> NewtonIter s = NewtonMaxit - 1 \<and> \<not> NewtonRate s * NewtonIncrement s \<le> NewtonTol)
   \<and> (\<forall>s. (\<exists>ys s'. newton_update env s = (Return ys, s'))
             = (NewtonIter s = NewtonMaxit - 1
                \<and> \<not> NewtonRate s * NewtonIncrement s \<le> NewtonTol))
   \<and> (\<forall>s ys. fst (newton_body env pr s) \<noteq> Return ys)
   \<and> (\<forall>s ys s'. integrate_body env t_end pr s = (Return ys, s') \<longrightarrow>
         step_lu env pr s = (Return ys, s')
         \<and> ys = (map Fin (y s))[0 := NaN]
         \<and> length ys = length (y s)
         \<and> (\<forall>i. 0 < i \<and> i < length (y s) \<longrightarrow> ys ! i = Fin (y s ! i))
         \<and> (y s \<noteq> [] \<longrightarrow> ys ! 0 = NaN)
         \<and> (t s + Roundoff < t_end \<longrightarrow> integrate_loop env t_end pr s = Returned ys))"
proof (intro conjI)
  show "\<forall>s ys s'. step_lu env pr s = (Return ys, s') \<longrightarrow>
       ys = (map Fin (y s))[0 := NaN] \<and> \<not> SkipLU s \<and> info s' \<noteq> 0
       \<and> Nconsecutive s' = Nconsecutive s + 1 \<and> 5 \<le> Nconsecutive s'"
    using step_lu_Return by blast
  show "\<forall>s ys s'. newton_update env s = (Return ys, s') \<longrightarrow>
         ys = (map Fin (y s))[0 := NaN] \<and> y s' = y s \<and> \<not> NewtonDone s'
         \<and> NewtonIter s = NewtonMaxit - 1 \<and> \<not> NewtonRate s * NewtonIncrement s \<le> NewtonTol"
    by (auto simp: newton_update_def Let_def split: if_splits)
  show "\<forall>s. (\<exists>ys s'. newton_update env s = (Return ys, s'))
             = (NewtonIter s = NewtonMaxit - 1
                \<and> \<not> NewtonRate s * NewtonIncrement s \<le> NewtonTol)"
    by (simp only: newton_update_Return_iff) simp
  show "\<forall>s ys. fst (newton_body env pr s) \<noteq> Return ys"
    by (simp add: newton_body_never_Return)
  show "\<forall>s ys s'. integrate_body env t_end pr s = (Return ys, s') \<longrightarrow>
         step_lu env pr s = (Return ys, s')
         \<and> ys = (map Fin (y s))[0 := NaN]
         \<and> length ys = length (y s)
         \<and> (\<forall>i. 0 < i \<and> i < length (y s) \<longrightarrow> ys ! i = Fin (y s ! i))
         \<and> (y s \<noteq> [] \<longrightarrow> ys ! 0 = NaN)
         \<and> (t s + Roundoff < t_end \<longrightarrow> integrate_loop env t_end pr s = Returned ys)"
  proof (intro allI impI)
    fix s ys s'
    assume b: "integrate_body env t_end pr s = (Return ys, s')"
    then have lu: "step_lu env pr s = (Return ys, s')"
      by (rule Return_pass_is_failed_factorisation)
    from step_lu_Return[OF lu] have ys: "ys = (map Fin (y s))[0 := NaN]" by simp
    have "length ((map Fin (y s))[0 := NaN]) = length (y s)"
      by simp
    moreover
    have "\<forall>i. 0 < i \<and> i < length (y s) \<longrightarrow> (map Fin (y s))[0 := NaN] ! i = Fin (y s ! i)"
      by (auto simp: nth_list_update)
    moreover have "y s \<noteq> [] \<longrightarrow> (map Fin (y s))[0 := NaN] ! 0 = NaN"
      by (auto simp: nth_list_update)
    moreover have "t s + Roundoff < t_end \<longrightarrow> integrate_loop env t_end pr s = Returned ys"
      using b by (simp add: integrate_loop_Return)
    ultimately show "step_lu env pr s = (Return ys, s')
         \<and> ys = (map Fin (y s))[0 := NaN]
         \<and> length ys = length (y s)
         \<and> (\<forall>i. 0 < i \<and> i < length (y s) \<longrightarrow> ys ! i = Fin (y s ! i))
         \<and> (y s \<noteq> [] \<longrightarrow> ys ! 0 = NaN)
         \<and> (t s + Roundoff < t_end \<longrightarrow> integrate_loop env t_end pr s = Returned ys)"
      using lu ys by simp
  qed
qed

section \<open>The Newton loop\<close>

lemma newton_passes_stop: "\<not> NewtonIter s < NewtonMaxit \<Longrightarrow> newton_passes env pr s = 0"
  by (subst newton_passes.simps) simp












section \<open>Two passes of the impulse problem\<close>

text \<open>
  The first two passes of \<^verbatim>\<open>integrate(0, impulse_t_end, impulse_pr, y)\<close> with \<open>y = [0]\<close>, block by
  block. Both accept their step; the second is the last but one of the run.
\<close>

lemma RK_ErrorNorm_1:
  assumes "NN env = 1" "sums_oob env [a] [b] = 0"
  shows "RK_ErrorNorm env [a] [b] = max \<bar>a * b\<bar> (1 / 10 ^ 10)"
proof -
  have "a * a * b * b = (a * b) * (a * b)" by simp
  then have "sqrt (a * a * b * b) = \<bar>a * b\<bar>" by (simp only: real_sqrt_abs2)
  then show ?thesis
    using assms partial_sums_1[of a b] by (simp add: RK_ErrorNorm_def add_sums_eq)
qed

lemma impulse_norm: "RK_ErrorNorm impulse_env [a] [b] = max \<bar>a * b\<bar> (1 / 10 ^ 10)"
  by (rule RK_ErrorNorm_1) (simp_all add: impulse_env_def)

lemma sqrt_mean3: "0 \<le> d \<Longrightarrow> sqrt ((d * d + d * d + d * d) / 3) = d"
proof -
  assume "0 \<le> d"
  have "(d * d + d * d + d * d) / 3 = d * d" by simp
  with \<open>0 \<le> d\<close> show ?thesis by simp
qed

lemma NewtonRate_first: "(max (2 powr 1.25) EPS) powr 0.8 = 2"
proof -
  have "(1::real) \<le> 2 powr 1.25" by (rule ge_one_powr_ge_zero) simp_all
  then have "max (2 powr 1.25) EPS = 2 powr 1.25" by (simp add: EPS_def max_def)
  then show ?thesis by (simp add: powr_powr)
qed

lemma powr_6561: "(0.6561::real) powr (- 1 / 4) = 10 / 9"
proof -
  have "(0.6561::real) = (9/10) powr 4" by (simp add: power_divide)
  then have "(0.6561::real) powr (- 1 / 4) = (9/10) powr (4 * (- 1 / 4))"
    by (simp only: powr_powr)
  also have "\<dots> = 10 / 9" by (simp add: powr_minus_divide)
  finally show ?thesis .
qed

lemma RK_Decomp_impulse:
  "h \<noteq> 0 \<Longrightarrow> RK_Decomp impulse_env h [0] ip
     = ([rkGamma / h], [Complex (rkAlpha / h) (rkBeta / h)], [1], [1], 0)"
  by (simp add: RK_Decomp_def impulse_env_def Let_def dgetrf1_def zgetrf1_def rkGamma_def
        rkAlpha_def rkBeta_def complex_eq_iff)

lemma RK_PrepareRHS_impulse_zero:
  "tt + rkC ! 0 * h \<noteq> 0 \<Longrightarrow> tt + rkC ! 1 * h \<noteq> 0 \<Longrightarrow> tt + rkC ! 2 * h \<noteq> 0 \<Longrightarrow>
   RK_PrepareRHS impulse_env tt p h [v] f0 [0] [0] [0] = ([0], [0], [0])"
  by (simp add: RK_PrepareRHS_def impulse_env_def Let_def WADD_def DAXPY3_def)

lemma RK_Solve_impulse_zero:
  "h \<noteq> 0 \<Longrightarrow> e1 \<noteq> 0 \<Longrightarrow> e2 \<noteq> 0 \<Longrightarrow>
   RK_Solve impulse_env h [e1] [e2] [0] [0] [0] ip1 ip2 = Inr ([0], [0], [0])"
  by (simp add: RK_Solve_def impulse_env_def Let_def dgetrs1_def zgetrs1_def zero_complex.code[symmetric])

lemma sqrt_1e20: "sqrt (1 / 100000000000000000000) = 1 / 10000000000"
  by (rule real_sqrt_unique) (simp_all add: power2_eq_square)

lemma impulse_NN: "NN impulse_env = Suc 0"
  by (simp add: impulse_env_def)

lemma newton_body_impulse_zero:
  assumes "t s + rkC ! 0 * H s \<noteq> 0" "t s + rkC ! 1 * H s \<noteq> 0" "t s + rkC ! 2 * H s \<noteq> 0"
    and "H s \<noteq> 0" "E1 s = [e1]" "E2 s = [e2]" "e1 \<noteq> 0" "e2 \<noteq> 0"
    and "y s = [v]" "Z1 s = [0]" "Z2 s = [0]" "Z3 s = [0]" "sc s = [w]"
    and "NewtonIter s = 0" "NewtonRate s \<le> 3" "0 \<le> NewtonRate s"
  shows "newton_body impulse_env pr s
           = (Break, s\<lparr>DZ1 := [0], DZ2 := [0], DZ3 := [0], NewtonIncrement := 1 / 10 ^ 10,
                        Theta := ThetaMin, NewtonIncrementOld := 1 / 10 ^ 10,
                        Z1 := [0], Z2 := [0], Z3 := [0], NewtonDone := True\<rparr>)"
proof -
  have n: "RK_ErrorNorm impulse_env [w] [0] = 1 / 10 ^ 10"
    by (simp add: impulse_norm)
  have p: "RK_PrepareRHS impulse_env (t s) pr (H s) (y s) (F0 s) [0] [0] [0]
             = ([0], [0], [0])"
    using assms by (simp add: RK_PrepareRHS_impulse_zero)
  have q: "RK_Solve impulse_env (H s) (E1 s) (E2 s) [0] [0] [0] (ipiv1 s) (ipiv2 s)
             = Inr ([0], [0], [0])"
    using assms by (simp add: RK_Solve_impulse_zero)
  have r: "NewtonRate s * (1 / 10 ^ 10) \<le> NewtonTol"
    using assms(15,16) by (simp add: NewtonTol_def)
  show ?thesis
    unfolding newton_body_def
    using r assms(10-12)
    by (simp add: p q Let_def assms(13,14) n newton_rate_def newton_update_def Roundoff_def
          EPS_def sqrt_1e20 impulse_NN)
qed

lemma impulse_dydt: "dydt impulse_env tt p v = [if tt = 0 then p else 0]"
  by (simp add: impulse_env_def)

lemma impulse_jacob: "eval_jacob impulse_env tt p v = [0]"
  by (simp add: impulse_env_def)

lemma impulse_tol: "ATOL impulse_env = 1 / 10 ^ 10" "RTOL impulse_env = 1 / 10 ^ 6"
  by (simp_all add: impulse_env_def)

lemma impulse_dgetrs: "dgetrs impulse_env n [e] ip [b] = ([b / e], 0)"
  by (simp add: impulse_env_def dgetrs1_def)

lemma pass1_lu: "step_lu impulse_env impulse_pr imp0 = (Fallthrough, imp1)"
  by (simp add: step_lu_def imp0_def imp1_def integrate_init_def Let_def RK_Decomp_impulse
        impulse_dydt impulse_jacob)

lemma pass1_checks: "step_checks imp1 = (Fallthrough, imp1\<lparr>Nsteps := 1\<rparr>)"
  by (simp add: step_checks_def imp0_def imp1_def integrate_init_def Let_def Max_no_steps_def)

lemma pass1_start: "newton_start impulse_env (imp1\<lparr>Nsteps := 1\<rparr>) = imp2"
  using NewtonRate_first
  by (simp add: newton_start_def imp0_def imp1_def imp2_def integrate_init_def Let_def impulse_NN)

lemma pass1_body: "newton_body impulse_env impulse_pr imp2 = (Break, imp3)"
  unfolding imp3_def
  by (rule newton_body_impulse_zero[where ?e1.0 = "rkGamma / 0.0000005"
            and ?e2.0 = "Complex (rkAlpha / 0.0000005) (rkBeta / 0.0000005)"])
     (simp_all add: imp0_def imp1_def imp2_def integrate_init_def rkC_def rkGamma_def rkAlpha_def
        rkBeta_def complex_eq_iff scale_init_def impulse_NN)

lemma pass1_newton: "newton_loop impulse_env impulse_pr imp2 = (Break, imp3)"
  by (rule newton_loop_leave[OF _ pass1_body])
     (simp_all add: imp2_def NewtonMaxit_def)

lemma pass1_estimate:
  "RK_ErrorEstimate impulse_env (H imp3) (t imp3) impulse_pr (y imp3) (F0 imp3) (Z1 imp3) (Z2 imp3) (Z3 imp3)
     (sc imp3) (E1 imp3) (ipiv1 imp3) (FirstStep imp3) (Reject imp3) = Inr 0.6561"
  apply (simp add: imp0_def imp1_def imp2_def imp3_def integrate_init_def scale_init_def impulse_NN impulse_tol)
  apply (simp add: RK_ErrorEstimate_def Let_def impulse_NN impulse_dgetrs impulse_norm rkE_def impulse_pr_def rkGamma_def)
  done

lemma powr_6561n: "(6561 / 10000 :: real) powr - (1 / 4) = 10 / 9"
  using powr_6561 by simp

lemma pass1_classic:
  "classic_factor (imp3\<lparr>Err := 0.6561\<rparr>)
     = imp3\<lparr>Err := 0.6561, Fac := 10 / 9, Hnew := 10 / 9 * 0.0000005\<rparr>"
  by (simp add: classic_factor_def Let_def rkELO_def NewtonMaxit_def FacMin_def FacMax_def
        powr_6561n imp0_def imp1_def imp2_def imp3_def integrate_init_def)

lemma pass1_gustafsson:
  "gustafsson (imp3\<lparr>Err := 0.6561, Fac := 10 / 9, Hnew := 10 / 9 * 0.0000005\<rparr>)
     = imp3\<lparr>Err := 0.6561, Fac := 10 / 9, Hnew := 10 / 9 * 0.0000005\<rparr>"
  by (simp add: gustafsson_def imp0_def imp1_def imp2_def imp3_def integrate_init_def)

lemma Make_Interpolate_zero: "RK_Make_Interpolate impulse_env [0] [0] [0] = [0, 0, 0]"
  by (simp add: RK_Make_Interpolate_def impulse_NN Let_def)

lemma pass1_control: "step_control impulse_env impulse_t_end (imp3\<lparr>Err := 0.6561\<rparr>) = impA"
proof -
  have "step_control impulse_env impulse_t_end (imp3\<lparr>Err := 0.6561\<rparr>)
          = next_step_size impulse_t_end (commit_step impulse_env
              (gustafsson (classic_factor (imp3\<lparr>Err := 0.6561\<rparr>))))"
    by (rule step_control_accept) simp
  also have "\<dots> = next_step_size impulse_t_end (commit_step impulse_env
                      (imp3\<lparr>Err := 0.6561, Fac := 10 / 9, Hnew := 10 / 9 * 0.0000005\<rparr>))"
    by (simp only: pass1_classic pass1_gustafsson)
  also have "\<dots> = impA"
    by (simp add: commit_step_def next_step_size_def clamp_Hnew_def decide_reuse_def Let_def
          StartNewton_def impA_def imp0_def imp1_def imp2_def imp3_def integrate_init_def impulse_NN
          Make_Interpolate_zero scale_def scale_init_def impulse_tol impulse_t_end_def Qmin_def
          Qmax_def ThetaMin_def)
  finally show ?thesis .
qed

lemma step_after_newton_estimate:
  "NewtonDone s \<Longrightarrow>
   RK_ErrorEstimate env (H s) (t s) pr (y s) (F0 s) (Z1 s) (Z2 s) (Z3 s) (sc s) (E1 s)
     (ipiv1 s) (FirstStep s) (Reject s) = Inr e \<Longrightarrow>
   step_after_newton env t_end pr s = (Fallthrough, step_control env t_end (s\<lparr>Err := e\<rparr>))"
  by (simp add: step_after_newton_def)

lemma pass1_after:
  "step_after_newton impulse_env impulse_t_end impulse_pr imp3 = (Fallthrough, impA)"
proof -
  have "NewtonDone imp3" by (simp add: imp3_def)
  from step_after_newton_estimate[OF this pass1_estimate, of impulse_t_end]
  show ?thesis by (simp only: pass1_control)
qed

lemma pass1: "integrate_body impulse_env impulse_t_end impulse_pr imp0 = (Fallthrough, impA)"
  by (simp add: integrate_body_def pass1_lu pass1_checks pass1_start pass1_newton pass1_after)

lemma step_lu_SkipLU:
  "SkipLU s \<Longrightarrow>
   step_lu env pr s = (Fallthrough, if \<not> Reject s then s\<lparr>F0 := dydt env (t s) pr (y s)\<rparr> else s)"
  by (simp add: step_lu_def Let_def)

text \<open>
  An accepted step that leaves at most \<open>FacMin * H\<close> of the interval: the next step size is
  what is left of the interval, and line 683 assigns it to \<open>H\<close> without touching \<open>SkipLU\<close>.
\<close>

lemma accept_last_step:
  assumes "Err s < 1" "0 < H s" "t_end - (t s + H s) \<le> FacMin * H s"
  shows "SkipLU (step_control env t_end s) = SkipLU s
       \<and> H (step_control env t_end s) = t_end - (t s + H s)
       \<and> t (step_control env t_end s) = t s + H s
       \<and> E1 (step_control env t_end s) = E1 s \<and> E2 (step_control env t_end s) = E2 s
       \<and> ipiv1 (step_control env t_end s) = ipiv1 s \<and> ipiv2 (step_control env t_end s) = ipiv2 s
       \<and> A (step_control env t_end s) = A s"
proof -
  let ?g = "gustafsson (classic_factor s)"
  let ?c = "commit_step env ?g"
  let ?k = "clamp_Hnew t_end ?c"
  have fm: "FacMin = 0.2" "Qmin = 1" by (simp_all add: FacMin_def Qmin_def)
  from classic_factor_bounds[of s]
  have "FacMin \<le> Fac ?g \<and> Hnew ?g = Fac ?g * H (classic_factor s)"
    by (intro gustafsson_bounds) simp_all
  then have hn: "FacMin * H s \<le> Hnew ?g"
    using assms(2) by simp
  have tc: "t ?c = t s + H s" "Hnew ?c = Hnew ?g" "H ?c = H s"
    by (simp_all add: commit_step_changed)
  have a3: "t_end - (t s + H s) \<le> H s / 5"
    using assms(3) by (simp add: FacMin_def)
  have hn': "H s / 5 \<le> Hnew ?g"
    using hn by (simp add: FacMin_def)
  have "t_end - (t s + H s) \<le> Hnew ?g" "t_end - (t s + H s) \<le> H s"
    using a3 hn' assms(2) by linarith+
  then have d: "t_end - t ?c \<le> Hnew ?c" "t_end - t ?c \<le> H ?c"
    by (simp_all only: tc)
  have "Hnew ?k = t_end - t ?c"
    using d by (simp add: clamp_Hnew_changed min_def max_def)
  then have "t ?k + Hnew ?k / Qmin - t_end \<ge> 0"
    by (simp add: fm)
  then have "decide_reuse t_end ?k = ?k\<lparr>H := t_end - t ?k\<rparr>"
    by (rule decide_reuse_last)
  then have "SkipLU (decide_reuse t_end ?k) = SkipLU s" "H (decide_reuse t_end ?k) = t_end - t ?c"
    by simp_all
  then show ?thesis
    using tc by (simp add: step_control_accept[OF assms(1)] next_step_size_changed)
qed

lemmas imp_defs = imp0_def imp1_def imp2_def imp3_def impA_def integrate_init_def

lemma pass2_lu: "step_lu impulse_env impulse_pr impA = (Fallthrough, impA\<lparr>F0 := [0]\<rparr>)"
proof -
  have "SkipLU impA" by (simp add: imp_defs)
  from step_lu_SkipLU[OF this, of impulse_env impulse_pr]
  show ?thesis by (simp add: impulse_dydt imp_defs)
qed

lemma pass2_checks:
  "step_checks (impA\<lparr>F0 := [0]\<rparr>) = (Fallthrough, impA\<lparr>F0 := [0], Nsteps := 2\<rparr>)"
  by (simp add: step_checks_def imp_defs Let_def Max_no_steps_def Roundoff_def EPS_def)

lemma Interpolate_zero:
  "RK_Interpolate impulse_env h ho [0, 0, 0] = ([0], [0], [0])"
  by (simp add: RK_Interpolate_def impulse_NN Let_def)

lemma NewtonRate_second: "(max 2 EPS) powr (4 / 5) = 2 powr (4 / 5)"
  by (simp add: EPS_def max_def)

lemma pass2_start: "newton_start impulse_env (impA\<lparr>F0 := [0], Nsteps := 2\<rparr>) = impB2"
  by (simp add: newton_start_def impB2_def imp_defs Let_def impulse_NN StartNewton_def
        Interpolate_zero NewtonRate_second)

lemma powr_08: "0 \<le> (2::real) powr 0.8" "(2::real) powr 0.8 \<le> 3"
proof -
  show "0 \<le> (2::real) powr 0.8" by simp
  have "(2::real) powr 0.8 \<le> 2 powr 1" by (rule powr_mono) simp_all
  then show "(2::real) powr 0.8 \<le> 3" by simp
qed

lemma pass2_body: "newton_body impulse_env impulse_pr impB2 = (Break, impB3)"
  unfolding impB3_def
  using powr_08
  by (intro newton_body_impulse_zero[where ?e1.0 = "rkGamma / 0.0000005"
            and ?e2.0 = "Complex (rkAlpha / 0.0000005) (rkBeta / 0.0000005)"])
     (simp_all add: impB2_def imp_defs rkC_def rkGamma_def rkAlpha_def
        rkBeta_def complex_eq_iff)

lemma pass2_newton: "newton_loop impulse_env impulse_pr impB2 = (Break, impB3)"
  by (rule newton_loop_leave[OF _ pass2_body])
     (simp_all add: impB2_def NewtonMaxit_def)

lemma pass2_estimate:
  "RK_ErrorEstimate impulse_env (H impB3) (t impB3) impulse_pr (y impB3) (F0 impB3) (Z1 impB3)
     (Z2 impB3) (Z3 impB3) (sc impB3) (E1 impB3) (ipiv1 impB3) (FirstStep impB3) (Reject impB3)
     = Inr (1 / 10 ^ 10)"
  apply (simp add: impB2_def impB3_def imp_defs)
  apply (simp add: RK_ErrorEstimate_def Let_def impulse_NN impulse_dgetrs impulse_norm rkE_def)
  done

lemma pass2_after:
  "step_after_newton impulse_env impulse_t_end impulse_pr impB3 = (Fallthrough, impB)"
proof -
  have "NewtonDone impB3" by (simp add: impB3_def)
  from step_after_newton_estimate[OF this pass2_estimate, of impulse_t_end]
  show ?thesis by (simp only: impB_def)
qed

lemma pass2: "integrate_body impulse_env impulse_t_end impulse_pr impA = (Fallthrough, impB)"
  by (simp add: integrate_body_def pass2_lu pass2_checks pass2_start pass2_newton pass2_after)

lemma impB_fields:
  "SkipLU impB \<and> H impB = 0.000000075 \<and> t impB = 0.000001
   \<and> E1 impB = [rkGamma / 0.0000005] \<and> A impB = [0] \<and> Err impB = 1 / 10 ^ 10"
proof -
  let ?s = "impB3\<lparr>Err := 1 / 10 ^ 10\<rparr>"
  have f: "Err ?s < 1" "0 < H ?s" "impulse_t_end - (t ?s + H ?s) \<le> FacMin * H ?s"
    "SkipLU ?s" "t ?s = 0.0000005" "H ?s = 0.0000005" "E1 ?s = [rkGamma / 0.0000005]"
    "A ?s = [0]"
    by (simp_all add: impB3_def impB2_def imp_defs impulse_t_end_def FacMin_def)
  from accept_last_step[OF f(1,2,3), of impulse_env] f(4-8)
  show ?thesis unfolding impB_def by (simp add: impulse_t_end_def)
qed

section \<open>Five failed factorisations in a row\<close>

text \<open>
  A pass in which the factorisation fails: it ends by \<^verbatim>\<open>continue\<close> with \<open>H\<close> halved, or, the
  fifth time in a row, by \<^verbatim>\<open>return\<close>.
\<close>

lemma lu_failure:
  assumes "\<not> SkipLU s"
    and "jac = (if SkipJac s then A s else eval_jacob env (t s) pr (y s))"
    and "snd (snd (snd (snd (RK_Decomp env (H s) jac (ipiv2 s))))) \<noteq> 0"
  shows "fst (integrate_body env t_end pr s)
           = (if 5 \<le> Nconsecutive s + 1 then Return ((map Fin (y s))[0 := NaN]) else Continue)"
    and "Nconsecutive s + 1 < 5 \<Longrightarrow>
         H (snd (integrate_body env t_end pr s)) = H s * 0.5
         \<and> \<not> SkipLU (snd (integrate_body env t_end pr s))
         \<and> SkipJac (snd (integrate_body env t_end pr s))
         \<and> A (snd (integrate_body env t_end pr s)) = jac
         \<and> Nconsecutive (snd (integrate_body env t_end pr s)) = Nconsecutive s + 1
         \<and> y (snd (integrate_body env t_end pr s)) = y s
         \<and> t (snd (integrate_body env t_end pr s)) = t s"
proof -
  obtain e1 e2 p1 p2 i where d: "RK_Decomp env (H s) jac (ipiv2 s) = (e1, e2, p1, p2, i)"
    by (cases "RK_Decomp env (H s) jac (ipiv2 s)") auto
  with assms(3) have i: "i \<noteq> 0" by simp
  show "fst (integrate_body env t_end pr s)
           = (if 5 \<le> Nconsecutive s + 1 then Return ((map Fin (y s))[0 := NaN]) else Continue)"
    using assms(1,2) d i by (auto simp: integrate_body_def step_lu_def Let_def)
  show "Nconsecutive s + 1 < 5 \<Longrightarrow>
         H (snd (integrate_body env t_end pr s)) = H s * 0.5
         \<and> \<not> SkipLU (snd (integrate_body env t_end pr s))
         \<and> SkipJac (snd (integrate_body env t_end pr s))
         \<and> A (snd (integrate_body env t_end pr s)) = jac
         \<and> Nconsecutive (snd (integrate_body env t_end pr s)) = Nconsecutive s + 1
         \<and> y (snd (integrate_body env t_end pr s)) = y s
         \<and> t (snd (integrate_body env t_end pr s)) = t s"
    using assms(1,2) d i by (auto simp: integrate_body_def step_lu_def Let_def)
qed

lemma upt_25:
  "[0..<25] = [0, Suc 0, 2, 3, 4, 5, 6, 7, 8, 9, 10, 11, 12, 13, 14, 15, 16, 17, 18, 19, 20, 21, 22,
               23, 24]"
  by (simp add: upt_rec)

lemma upt_5: "[0..<5] = [0, Suc 0, 2, 3, 4]"
  by (simp add: upt_rec)

lemma diag_jacob:
  "eval_jacob diag_env tt p v =
     [diag_rate 0, 0, 0, 0, 0,   0, diag_rate 1, 0, 0, 0,   0, 0, diag_rate 2, 0, 0,
      0, 0, 0, diag_rate 3, 0,   0, 0, 0, 0, diag_rate 4]"
  by (simp add: diag_env_def upt_25)

lemma diag_info:
  "snd (snd (snd (snd (RK_Decomp diag_env 0.0000005 (eval_jacob diag_env tt p v) ip)))) = 1"
  "snd (snd (snd (snd (RK_Decomp diag_env (0.0000005 / 2) (eval_jacob diag_env tt p v) ip)))) = 2"
  "snd (snd (snd (snd (RK_Decomp diag_env (0.0000005 / 4) (eval_jacob diag_env tt p v) ip)))) = 3"
  "snd (snd (snd (snd (RK_Decomp diag_env (0.0000005 / 8) (eval_jacob diag_env tt p v) ip)))) = 4"
  "snd (snd (snd (snd (RK_Decomp diag_env (0.0000005 / 16) (eval_jacob diag_env tt p v) ip)))) = 5"
  unfolding diag_jacob
  by (simp_all add: RK_Decomp_def diag_env_def getrf_diag_def upt_25 upt_5 diag_rate_def
      rkGamma_def Let_def)

lemma diag_info_neq:
  assumes "k < 5"
  shows "snd (snd (snd (snd (RK_Decomp diag_env (0.0000005 / 2 ^ k)
           (eval_jacob diag_env tt p v) ip)))) = int k + 1"
proof -
  from assms have "k = 0 \<or> k = 1 \<or> k = 2 \<or> k = 3 \<or> k = 4" by arith
  then show ?thesis
    using diag_info[of tt p v ip] by auto
qed

lemma diag_state_facts:
  "k \<le> 4 \<Longrightarrow>
   H (diag_state k) = 0.0000005 / 2 ^ k \<and> \<not> SkipLU (diag_state k)
   \<and> (SkipJac (diag_state k) \<longrightarrow> A (diag_state k) = eval_jacob diag_env 0 0 diag_y)
   \<and> Nconsecutive (diag_state k) = int k \<and> y (diag_state k) = diag_y \<and> t (diag_state k) = 0"
proof (induction k)
  case 0
  show ?case by (simp add: diag_state_def integrate_init_def)
next
  case (Suc k)
  let ?s = "diag_state k"
  let ?J = "eval_jacob diag_env 0 0 diag_y"
  from Suc have ih: "H ?s = 0.0000005 / 2 ^ k" "\<not> SkipLU ?s" "SkipJac ?s \<longrightarrow> A ?s = ?J"
    "Nconsecutive ?s = int k" "y ?s = diag_y" "t ?s = 0" and k: "k < 4"
    by simp_all
  have J: "?J = (if SkipJac ?s then A ?s else eval_jacob diag_env (t ?s) 0 (y ?s))"
    using ih by simp
  have i: "snd (snd (snd (snd (RK_Decomp diag_env (H ?s) ?J (ipiv2 ?s))))) \<noteq> 0"
    using k by (simp only: ih(1) diag_info_neq)
  have n: "Nconsecutive ?s + 1 < 5" using k ih(4) by simp
  have st: "diag_state (Suc k) = snd (integrate_body diag_env 1 0 ?s)"
    by (simp add: diag_state_def)
  from lu_failure(2)[OF ih(2) J i n, of 1] ih show ?case
    unfolding st by simp
qed

lemma diag_state_body:
  assumes "k < 4"
  shows "integrate_body diag_env 1 0 (diag_state k) = (Continue, diag_state (Suc k))"
proof -
  let ?s = "diag_state k"
  let ?J = "eval_jacob diag_env 0 0 diag_y"
  from diag_state_facts[of k] assms
  have ih: "H ?s = 0.0000005 / 2 ^ k" "\<not> SkipLU ?s" "SkipJac ?s \<longrightarrow> A ?s = ?J"
    "Nconsecutive ?s = int k" "y ?s = diag_y" "t ?s = 0"
    by simp_all
  have J: "?J = (if SkipJac ?s then A ?s else eval_jacob diag_env (t ?s) 0 (y ?s))"
    using ih by simp
  have i: "snd (snd (snd (snd (RK_Decomp diag_env (H ?s) ?J (ipiv2 ?s))))) \<noteq> 0"
    using assms by (simp only: ih(1) diag_info_neq)
  from lu_failure(1)[OF ih(2) J i, of 1] assms ih(4)
  have "fst (integrate_body diag_env 1 0 ?s) = Continue" by simp
  then show ?thesis
    by (cases "integrate_body diag_env 1 0 ?s") (simp add: diag_state_def)
qed

lemma diag_state_Return:
  "integrate_body diag_env 1 0 (diag_state 4)
     = (Return [NaN, Fin 2, Fin 3, Fin 4, Fin 5], diag_state 5)"
proof -
  let ?s = "diag_state 4"
  let ?J = "eval_jacob diag_env 0 0 diag_y"
  from diag_state_facts[of 4]
  have ih: "H ?s = 0.0000005 / 2 ^ 4" "\<not> SkipLU ?s" "SkipJac ?s \<longrightarrow> A ?s = ?J"
    "Nconsecutive ?s = 4" "y ?s = diag_y" "t ?s = 0"
    by simp_all
  have J: "?J = (if SkipJac ?s then A ?s else eval_jacob diag_env (t ?s) 0 (y ?s))"
    using ih by simp
  have i: "snd (snd (snd (snd (RK_Decomp diag_env (H ?s) ?J (ipiv2 ?s))))) \<noteq> 0"
    by (simp only: ih(1) diag_info_neq)
  from lu_failure(1)[OF ih(2) J i, of 1] ih(4,5)
  have "fst (integrate_body diag_env 1 0 ?s) = Return [NaN, Fin 2, Fin 3, Fin 4, Fin 5]"
    by (simp add: diag_y_def)
  moreover have "diag_state 5 = snd (integrate_body diag_env 1 0 ?s)"
    by (simp add: diag_state_def eval_nat_numeral)
  ultimately show ?thesis
    by (cases "integrate_body diag_env 1 0 ?s") simp
qed

lemma diag_loop:
  "k \<le> 4 \<Longrightarrow> integrate_loop diag_env 1 0 (diag_state 0) = integrate_loop diag_env 1 0 (diag_state k)"
proof (induction k)
  case 0
  show ?case by simp
next
  case (Suc k)
  then have k: "k < 4" by simp
  have c: "t (diag_state k) + Roundoff < 1"
    using diag_state_facts[of k] k by (simp add: Roundoff_def EPS_def)
  from integrate_loop_next[OF c diag_state_body[OF k]] Suc show ?case by simp
qed

lemma diag_run: "integrate diag_env 0 1 0 diag_y = Returned [NaN, Fin 2, Fin 3, Fin 4, Fin 5]"
proof -
  have c: "t (diag_state 4) + Roundoff < 1"
    using diag_state_facts[of 4] by (simp add: Roundoff_def EPS_def)
  have "integrate diag_env 0 1 0 diag_y = integrate_loop diag_env 1 0 (diag_state 0)"
    by (simp add: integrate_def diag_state_def)
  also have "\<dots> = integrate_loop diag_env 1 0 (diag_state 4)"
    by (rule diag_loop) simp
  also have "\<dots> = Returned [NaN, Fin 2, Fin 3, Fin 4, Fin 5]"
    by (rule integrate_loop_Return[OF c diag_state_Return])
  finally show ?thesis .
qed

section \<open>Failures that end the run\<close>

text \<open>
  The two tests of lines 494-503. A pass that fails one of them ends the process: the call
  of \<^verbatim>\<open>integrate\<close> does not return.
\<close>

lemma failed_checks_exit:
  assumes "t s + Roundoff < t_end" and "step_lu env pr s = (Fallthrough, s1)"
    and "Max_no_steps \<le> Nsteps s1 + 1 \<or> 0.1 * \<bar>H s1\<bar> \<le> \<bar>t s1\<bar> * Roundoff"
  shows "integrate_loop env t_end pr s = Exited (- 1)"
proof -
  from assms(3) have "step_checks s1 = (Exit (- 1), s1\<lparr>Nsteps := Nsteps s1 + 1\<rparr>)"
    by (auto simp: step_checks_def Let_def)
  with assms(2)
  have "integrate_body env t_end pr s = (Exit (- 1), s1\<lparr>Nsteps := Nsteps s1 + 1\<rparr>)"
    by (simp add: integrate_body_def)
  from integrate_loop_Exit[OF assms(1) this] show ?thesis .
qed

lemma step_size_underflow_exits:
  "integrate impulse_env (10 ^ 10) (10 ^ 10 + 1) 0 [0] = Exited (- 1)"
proof -
  let ?s = "integrate_init impulse_env (10 ^ 10) [0]"
  have c: "t ?s + Roundoff < 10 ^ 10 + 1"
    by (simp add: integrate_init_def Roundoff_def EPS_def)
  have lu: "fst (step_lu impulse_env 0 ?s) = Fallthrough"
    "H (snd (step_lu impulse_env 0 ?s)) = 0.0000005"
    "t (snd (step_lu impulse_env 0 ?s)) = 10 ^ 10"
    "Nsteps (snd (step_lu impulse_env 0 ?s)) = 0"
    by (simp_all add: step_lu_def integrate_init_def Let_def RK_Decomp_impulse impulse_jacob
          impulse_dydt)
  obtain s1 where s1: "step_lu impulse_env 0 ?s = (Fallthrough, s1)"
    using lu(1) by (cases "step_lu impulse_env 0 ?s") simp
  with lu have f: "H s1 = 0.0000005" "t s1 = 10 ^ 10" "Nsteps s1 = 0" by simp_all
  have "fst (step_checks s1) = Exit (- 1)"
    by (simp add: step_checks_def Let_def f Max_no_steps_def Roundoff_def EPS_def)
  then obtain s2 where "step_checks s1 = (Exit (- 1), s2)"
    by (cases "step_checks s1") simp
  with s1 have "integrate_body impulse_env (10 ^ 10 + 1) 0 ?s = (Exit (- 1), s2)"
    by (simp add: integrate_body_def)
  from integrate_loop_Exit[OF c this] show ?thesis
    by (simp add: integrate_def)
qed

text \<open>
  Claim C2 says that every fatal condition reaches the caller as a non-zero return code,
  by value return, and that the process is never ended. \<^verbatim>\<open>integrate\<close> is a \<^verbatim>\<open>void\<close>
  function (the comments at lines 479, 497 and 562 read \<^verbatim>\<open>//todo implement return codes\<close>): a
  call either leaves a vector in \<^verbatim>\<open>y\<close> and returns, or ends the process. The tests of the
  step counter and of the step size (lines 495-502) end the process with \<^verbatim>\<open>exit(-1)\<close>: the
  impulse problem started at \<open>t = 1e10\<close> fails the second one in its first pass, as
  \<open>0.1 * 5e-7 \<le> 1e10 * 2^-52\<close>. Five failed factorisations in a row make the call return
  with NaN in \<open>y[0]\<close> and no code: the run of the diagonal problem from 0 to 1.
\<close>

theorem fatal_failures_exit_or_return_without_code:
  "integrate impulse_env (10 ^ 10) (10 ^ 10 + 1) 0 [0] = Exited (- 1)
   \<and> integrate diag_env 0 1 0 diag_y = Returned [NaN, Fin 2, Fin 3, Fin 4, Fin 5]"
  using step_size_underflow_exits diag_run by simp

section \<open>Reuse of the factorisation\<close>

text \<open>
  Lines 682-689. \<open>SkipLU\<close> is assigned in the \<^verbatim>\<open>else\<close> branch only, and it is assigned true
  only when \<open>Theta \<le> ThetaMin\<close> and \<open>Qmin \<le> Hnew / H \<le> Qmax\<close>; \<open>H\<close> then keeps its value.
  The other branch, the one of the last step, assigns \<open>H\<close> and leaves \<open>SkipLU\<close> as it is.
\<close>

lemma decide_reuse_SkipLU:
  assumes "SkipLU (decide_reuse t_end s)"
  shows "(t s + Hnew s / Qmin - t_end \<ge> 0 \<and> SkipLU s \<and> H (decide_reuse t_end s) = t_end - t s)
       \<or> (\<not> t s + Hnew s / Qmin - t_end \<ge> 0 \<and> Theta s \<le> ThetaMin \<and> Qmin \<le> Hnew s / H s
           \<and> Hnew s / H s \<le> Qmax \<and> H (decide_reuse t_end s) = H s)"
proof (cases "t s + Hnew s / Qmin - t_end \<ge> 0")
  case True
  with assms show ?thesis by (simp add: decide_reuse_last)
next
  case False
  with assms show ?thesis by (simp add: decide_reuse_not_last split: if_splits)
qed

lemma impB_factors:
  "E2 impB = [Complex (rkAlpha / 0.0000005) (rkBeta / 0.0000005)] \<and> ipiv2 impB = [1]
   \<and> ipiv1 impB = [1]"
proof -
  let ?s = "impB3\<lparr>Err := 1 / 10 ^ 10\<rparr>"
  have f: "Err ?s < 1" "0 < H ?s" "impulse_t_end - (t ?s + H ?s) \<le> FacMin * H ?s"
    "E2 ?s = [Complex (rkAlpha / 0.0000005) (rkBeta / 0.0000005)]" "ipiv2 ?s = [1]"
    "ipiv1 ?s = [1]"
    by (simp_all add: impB3_def impB2_def imp_defs impulse_t_end_def FacMin_def)
  from accept_last_step[OF f(1,2,3), of impulse_env] f(4-6)
  show ?thesis unfolding impB_def by simp
qed

lemma reachable_imp0: "reachable impulse_env 0 impulse_t_end impulse_pr [0] imp0"
  unfolding imp0_def by (rule reachable_init)

lemma reachable_impA: "reachable impulse_env 0 impulse_t_end impulse_pr [0] impA"
proof -
  have "t imp0 + Roundoff < impulse_t_end"
    by (simp add: imp_defs impulse_t_end_def Roundoff_def EPS_def)
  from reachable_step[OF reachable_imp0 this pass1] show ?thesis by simp
qed

lemma reachable_impB: "reachable impulse_env 0 impulse_t_end impulse_pr [0] impB"
proof -
  have "t impA + Roundoff < impulse_t_end"
    by (simp add: imp_defs impulse_t_end_def Roundoff_def EPS_def)
  from reachable_step[OF reachable_impA this pass2] show ?thesis by simp
qed

text \<open>
  Claim C4 says that a pass that begins with \<open>SkipLU\<close> set finds in \<open>E1\<close> and \<open>E2\<close> the
  factors computed at the current step size. In the run of the impulse problem from 0 to
  \<open>impulse_t_end\<close> the first pass accepts its step and sets \<open>SkipLU\<close> (\<open>Theta = ThetaMin\<close>,
  \<open>Hnew / H = 10 / 9\<close>); the second pass accepts its step too and is the last but one: line
  683 sets \<open>H\<close> to what is left of the interval, \<open>7.5e-8\<close>, and \<open>SkipLU\<close> stays set. The
  third pass begins in \<open>impB\<close> with \<open>SkipLU\<close> set and \<open>H = 7.5e-8\<close>, and \<open>E1\<close>, \<open>E2\<close> are the
  factors computed at \<open>H = 5e-7\<close>: \<^verbatim>\<open>RK_Decomp\<close> at the current step size gives other
  matrices, and the pass goes into its Newton loop without calling it.
\<close>

theorem last_step_reuses_stale_factorisation:
  "reachable impulse_env 0 impulse_t_end impulse_pr [0] impB
   \<and> t impB + Roundoff < impulse_t_end
   \<and> SkipLU impB \<and> H impB = 0.000000075
   \<and> E1 impB = [rkGamma / 0.0000005]
   \<and> E2 impB = [Complex (rkAlpha / 0.0000005) (rkBeta / 0.0000005)]
   \<and> RK_Decomp impulse_env (H impB) (A impB) (ipiv2 impB)
       = ([rkGamma / 0.000000075], [Complex (rkAlpha / 0.000000075) (rkBeta / 0.000000075)],
          [1], [1], 0)
   \<and> E1 impB \<noteq> [rkGamma / 0.000000075]
   \<and> fst (step_lu impulse_env impulse_pr impB) = Fallthrough
   \<and> E1 (snd (step_lu impulse_env impulse_pr impB)) = [rkGamma / 0.0000005]
   \<and> H (snd (step_lu impulse_env impulse_pr impB)) = 0.000000075"
proof -
  note f = impB_fields impB_factors
  note r = reachable_impB
  have h: "H impB = 0.000000075" "A impB = [0]" "ipiv2 impB = [1]" "SkipLU impB"
    "E1 impB = [rkGamma / 0.0000005]"
    "E2 impB = [Complex (rkAlpha / 0.0000005) (rkBeta / 0.0000005)]"
    using f by simp_all
  have c: "t impB + Roundoff < impulse_t_end"
    using f by (simp add: impulse_t_end_def Roundoff_def EPS_def)
  have d: "RK_Decomp impulse_env (H impB) (A impB) (ipiv2 impB)
             = ([rkGamma / 0.000000075], [Complex (rkAlpha / 0.000000075) (rkBeta / 0.000000075)],
                [1], [1], 0)"
    unfolding h by (rule RK_Decomp_impulse) simp
  have n: "E1 impB \<noteq> [rkGamma / 0.000000075]"
    using f by (simp add: rkGamma_def)
  from step_lu_SkipLU[OF h(4), of impulse_env impulse_pr]
  have l: "fst (step_lu impulse_env impulse_pr impB) = Fallthrough"
    "E1 (snd (step_lu impulse_env impulse_pr impB)) = [rkGamma / 0.0000005]"
    "H (snd (step_lu impulse_env impulse_pr impB)) = 0.000000075"
    using f by simp_all
  show ?thesis
    by (intro conjI; fact)
qed

section \<open>The theorems at the runs of the concrete problems\<close>

text \<open>The first pass of the impulse problem accepts its step.\<close>

theorem accepted_step_commits_witness:
  "integrate_body impulse_env impulse_t_end impulse_pr imp0 = (Fallthrough, impA)
   \<and> Err impA < 1
   \<and> t impA = t imp0 + H imp0 \<and> Hold impA = H imp0
   \<and> y impA = [y imp0 ! 0 + Z3 (newton_result impulse_env impulse_pr imp0) ! 0]
   \<and> NewtonDone (newton_result impulse_env impulse_pr imp0)"
proof -
  have e: "Err impA < 1" by (simp add: impA_def)
  from accepted_step_commits[OF pass1 e] pass1 e show ?thesis
    by (simp add: impulse_NN)
qed

theorem scale_vector_after_accept_witness:
  "reachable impulse_env 0 impulse_t_end impulse_pr [0] imp0
   \<and> integrate_body impulse_env impulse_t_end impulse_pr imp0 = (Fallthrough, impA)
   \<and> Err impA < 1
   \<and> sc imp0 ! 0 = 1 / (ATOL impulse_env + \<bar>[0] ! 0\<bar> * RTOL impulse_env)
   \<and> sc impA ! 0 = 1 / (ATOL impulse_env + max \<bar>y imp0 ! 0\<bar> \<bar>y impA ! 0\<bar> * RTOL impulse_env)"
proof -
  have e: "Err impA < 1" by (simp add: impA_def)
  from scale_vector_after_accept[where env = impulse_env and t_start = 0 and y_in = "[0]"
      and t_end = impulse_t_end and pr = impulse_pr]
  have i: "\<forall>i<NN impulse_env. sc imp0 ! i = 1 / (ATOL impulse_env + \<bar>[0] ! i\<bar> * RTOL impulse_env)"
    and a: "\<And>s s' i. reachable impulse_env 0 impulse_t_end impulse_pr [0] s \<Longrightarrow>
          integrate_body impulse_env impulse_t_end impulse_pr s = (Fallthrough, s') \<Longrightarrow>
          Err s' < 1 \<Longrightarrow> i < NN impulse_env \<Longrightarrow>
          sc s' ! i = 1 / (ATOL impulse_env + max \<bar>y s ! i\<bar> \<bar>y s' ! i\<bar> * RTOL impulse_env)"
    unfolding imp0_def by blast+
  from i have "sc imp0 ! 0 = 1 / (ATOL impulse_env + \<bar>[0] ! 0\<bar> * RTOL impulse_env)"
    by (simp add: impulse_NN)
  moreover from a[OF reachable_imp0 pass1 e, of 0]
  have "sc impA ! 0 = 1 / (ATOL impulse_env + max \<bar>y imp0 ! 0\<bar> \<bar>y impA ! 0\<bar> * RTOL impulse_env)"
    by (simp add: impulse_NN)
  ultimately show ?thesis
    using reachable_imp0 pass1 e by simp
qed

text \<open>The fifth pass of the diagonal problem returns; in the state \<open>stuck\<close> the block of
  lines 549-565 returns.\<close>

lemma stuck_update:
  "newton_update impulse_env stuck = (Return [NaN], stuck\<lparr>NewtonIncrementOld := 1\<rparr>)"
  by (simp add: newton_update_def Let_def stuck_def imp3_def imp2_def imp_defs impulse_NN
        Roundoff_def EPS_def NewtonTol_def NewtonMaxit_def)

theorem fatal_return_marks_y0_witness:
  "integrate_body diag_env 1 0 (diag_state 4)
     = (Return [NaN, Fin 2, Fin 3, Fin 4, Fin 5], diag_state 5)
   \<and> step_lu diag_env 0 (diag_state 4)
     = (Return [NaN, Fin 2, Fin 3, Fin 4, Fin 5], diag_state 5)
   \<and> y (diag_state 4) = [1, 2, 3, 4, 5]
   \<and> [NaN, Fin 2, Fin 3, Fin 4, Fin 5] = (map Fin (y (diag_state 4)))[0 := NaN]
   \<and> integrate_loop diag_env 1 0 (diag_state 4) = Returned [NaN, Fin 2, Fin 3, Fin 4, Fin 5]
   \<and> newton_update impulse_env stuck = (Return [NaN], stuck\<lparr>NewtonIncrementOld := 1\<rparr>)
   \<and> [NaN] = (map Fin (y stuck))[0 := NaN]
   \<and> NewtonIter stuck = NewtonMaxit - 1
   \<and> \<not> NewtonRate stuck * NewtonIncrement stuck \<le> NewtonTol
   \<and> fst (newton_body impulse_env impulse_pr imp2) = Break"
proof -
  note f = diag_state_facts[of 4]
  have c: "t (diag_state 4) + Roundoff < 1"
    using f by (simp add: Roundoff_def EPS_def)
  note d = fatal_return_marks_y0[where env = diag_env and pr = 0 and t_end = 1]
  note i = fatal_return_marks_y0[where env = impulse_env and pr = impulse_pr
      and t_end = impulse_t_end]
  from d diag_state_Return c
  have "step_lu diag_env 0 (diag_state 4)
          = (Return [NaN, Fin 2, Fin 3, Fin 4, Fin 5], diag_state 5)
      \<and> [NaN, Fin 2, Fin 3, Fin 4, Fin 5] = (map Fin (y (diag_state 4)))[0 := NaN]
      \<and> integrate_loop diag_env 1 0 (diag_state 4) = Returned [NaN, Fin 2, Fin 3, Fin 4, Fin 5]"
    by blast
  moreover from i stuck_update
  have "[NaN] = (map Fin (y stuck))[0 := NaN] \<and> NewtonIter stuck = NewtonMaxit - 1
      \<and> \<not> NewtonRate stuck * NewtonIncrement stuck \<le> NewtonTol"
    by blast
  ultimately show ?thesis
    using diag_state_Return f stuck_update by (simp add: diag_y_def pass1_body)
qed













end
